theory Spec2Isabelle
  imports Main "HOL-Library.Word"
begin

text \<open>
  The firmware of the Opta controller exists as two sketches: the serial one
  (\<open>integrated_opta_controller.ino\<close>) and the Ethernet one
  (\<open>integrated_opta_controller_ethernet.ino\<close>). Relay, valve, \<open>addDevice\<close> and
  \<open>findDevice\<close> are the same code in both and are modelled once; where the sketches
  differ the Ethernet sketch's function carries the suffix \<open>_eth\<close> (or its own name:
  \<open>allStatus\<close>, \<open>handleCommandString\<close>). Every function takes the world it acts on and
  returns the world it leaves.
\<close>

section \<open>C library and Arduino \<open>String\<close> helpers\<close>

text \<open>
  Bytes and characters are \<^typ>\<open>char\<close> (eight bits). A C string is the run of bytes up to the
  first NUL; command lines come from an Arduino \<open>String\<close>, which never holds a NUL.
\<close>

type_synonym byte = char

definition NUL :: byte where "NUL = CHR 0x00"
definition STX :: byte where "STX = CHR 0x02"
definition ENQ :: byte where "ENQ = CHR 0x05"
definition ACK :: byte where "ACK = CHR 0x06"
definition LF :: byte where "LF = CHR 0x0A"
definition CR :: byte where "CR = CHR 0x0D"
definition NAK :: byte where "NAK = CHR 0x15"

text \<open>What \<open>%s\<close>, \<open>strstr\<close>, \<open>strncmp\<close> and \<open>strlen\<close> see of a buffer.\<close>

definition cstr :: "byte list \<Rightarrow> string" where
  "cstr buf = takeWhile (\<lambda>c. c \<noteq> NUL) buf"

text \<open>
  \<open>snprintf(dst, n, ...)\<close> with the formatted text \<open>s\<close>: at most \<open>n - 1\<close> characters and a
  terminator. Every call of the sketches passes the size of a non-empty array.
\<close>

definition snprintf_s :: "nat \<Rightarrow> string \<Rightarrow> string" where
  "snprintf_s n s = take (n - 1) s"

text \<open>
  \<open>strncpy(dst, src, n)\<close> into a buffer the caller cleared only at index 0, read back as a C
  string: a source shorter than \<open>n\<close> is copied with its terminator; otherwise \<open>n\<close> characters
  are copied and no terminator is written, so a reader runs on into \<open>junk\<close>, the bytes that
  happen to follow in memory up to the next NUL.
\<close>

definition strncpy_s :: "nat \<Rightarrow> string \<Rightarrow> string \<Rightarrow> string" where
  "strncpy_s n src junk = (if length src < n then src else take n src @ junk)"

definition tolower_c :: "char \<Rightarrow> char" where
  "tolower_c c =
     (case map_of (zip ''ABCDEFGHIJKLMNOPQRSTUVWXYZ'' ''abcdefghijklmnopqrstuvwxyz'') c of
        Some l \<Rightarrow> l
      | None \<Rightarrow> c)"

text \<open>\<open>strcasecmp(a, b) == 0\<close>, and \<open>String::equalsIgnoreCase\<close>.\<close>

definition strcasecmp_eq :: "string \<Rightarrow> string \<Rightarrow> bool" where
  "strcasecmp_eq a b = (map tolower_c a = map tolower_c b)"

definition isspace_c :: "char \<Rightarrow> bool" where
  "isspace_c c = (c \<in> set [CHR '' '', CHR 0x09, CHR 0x0A, CHR 0x0B, CHR 0x0C, CHR 0x0D])"

text \<open>\<open>String::trim\<close>: leading and trailing white space removed.\<close>

definition trim :: "string \<Rightarrow> string" where
  "trim s = rev (dropWhile isspace_c (rev (dropWhile isspace_c s)))"

text \<open>
  One call of \<open>strtok(..., ":")\<close> on the text still to be scanned: leading delimiters are
  skipped; no token when nothing is left; otherwise the token and the text after the
  delimiter that ended it.
\<close>

definition strtok :: "string \<Rightarrow> (string \<times> string) option" where
  "strtok s =
     (let s' = dropWhile (\<lambda>c. c = CHR '':'') s in
      if s' = [] then None
      else Some (takeWhile (\<lambda>c. c \<noteq> CHR '':'') s', drop 1 (dropWhile (\<lambda>c. c \<noteq> CHR '':'') s')))"

text \<open>
  \<open>strncat(dst, src, n)\<close> and \<open>strlcat(dst, src, size)\<close> on the C string held in \<open>dst\<close>.
  \<open>size_t\<close> has 32 bits on the board, so the count the serial sketch computes,
  \<open>bufferSize - strlen(dst) - 1\<close>, wraps.
\<close>

definition strncat_s :: "string \<Rightarrow> string \<Rightarrow> nat \<Rightarrow> string" where
  "strncat_s dst src n = dst @ take n src"

definition size_sub :: "nat \<Rightarrow> nat \<Rightarrow> nat" where
  "size_sub a b = unat ((of_nat a :: 32 word) - of_nat b)"

definition strlcat_s :: "string \<Rightarrow> string \<Rightarrow> nat \<Rightarrow> string" where
  "strlcat_s dst src sz = (if sz \<le> length dst then dst else dst @ take (sz - length dst - 1) src)"

section \<open>Hardware: pins, the RS485 bus, the serial console\<close>

datatype Pin = D0 | D1 | D2 | D3 | LED_D0 | LED_D1 | LED_D2 | LED_D3

datatype SerialConfig = SERIAL_8N1 | SERIAL_7O1

text \<open>
  Everything the firmware does to the outside, in the order it does it. Of the RS485
  driver only \<open>begin\<close> (bit rate and framing) and \<open>write\<close> are recorded; \<open>end\<close>, \<open>receive\<close>,
  \<open>noReceive\<close>, \<open>flush\<close> and the delays leave no event.
\<close>

datatype Event =
    PinMode_OUTPUT Pin
  | DigitalWrite Pin bool
  | RS485_begin nat SerialConfig
  | RS485_write "byte list"
  | Serial_print string
  | Serial_println string

text \<open>
  \<open>rx\<close> is what the bus will answer: one entry per read, the bytes that reach that read
  between the drain before its request and the moment the reader stops (a terminator, the
  valve reader's gap, or the total timeout). With no entry left the bus is silent. Bytes
  left over when a reader returns are thrown away by the next drain or \<open>RS485.end()\<close>.
\<close>

record World =
  events :: "Event list"
  rx :: "byte list list"

definition emit :: "Event list \<Rightarrow> World \<Rightarrow> World" where
  "emit es w = w\<lparr>events := events w @ es\<rparr>"

definition rx_window :: "World \<Rightarrow> byte list \<times> World" where
  "rx_window w = (case rx w of [] \<Rightarrow> ([], w) | r # rs \<Rightarrow> (r, w\<lparr>rx := rs\<rparr>))"

section \<open>Devices\<close>

datatype DeviceType = DEVICE_RELAY | DEVICE_VICI | DEVICE_MASTERFLEX

datatype CommandResult = CMD_OK | CMD_ERROR | CMD_DATA

record Device =
  dev_id :: string
  dev_type :: DeviceType
  enabled :: bool

subsection \<open>Relay\<close>

record RelayDevice = Device +
  pin :: Pin
  ledPin :: Pin
  state :: bool

definition RelayDevice_new :: "string \<Rightarrow> nat \<Rightarrow> RelayDevice" where
  "RelayDevice_new deviceId relayNum =
     (let (p, l) =
        (if relayNum = 1 then (D0, LED_D0)
         else if relayNum = 2 then (D1, LED_D1)
         else if relayNum = 3 then (D2, LED_D2)
         else if relayNum = 4 then (D3, LED_D3)
         else (D0, LED_D0))
      in \<lparr>dev_id = take 11 deviceId, dev_type = DEVICE_RELAY, enabled = False,
          pin = p, ledPin = l, state = False\<rparr>)"

definition RelayDevice_initialize :: "RelayDevice \<Rightarrow> World \<Rightarrow> bool \<times> RelayDevice \<times> World" where
  "RelayDevice_initialize r w =
     (True, r\<lparr>enabled := True, state := False\<rparr>,
      emit [PinMode_OUTPUT (pin r), PinMode_OUTPUT (ledPin r),
            DigitalWrite (pin r) False, DigitalWrite (ledPin r) False] w)"

definition on_off :: "bool \<Rightarrow> string" where
  "on_off b = (if b then ''ON'' else ''OFF'')"

definition RelayDevice_processCommand ::
  "RelayDevice \<Rightarrow> string \<Rightarrow> string option \<Rightarrow> string option \<Rightarrow> nat \<Rightarrow> World
     \<Rightarrow> CommandResult \<times> string \<times> RelayDevice \<times> World" where
  "RelayDevice_processCommand r command param1 param2 responseSize w =
     (if strcasecmp_eq command ''ON'' then
        (CMD_OK, snprintf_s responseSize (''Relay '' @ dev_id r @ '' ON''),
         r\<lparr>state := True\<rparr>, emit [DigitalWrite (pin r) True, DigitalWrite (ledPin r) True] w)
      else if strcasecmp_eq command ''OFF'' then
        (CMD_OK, snprintf_s responseSize (''Relay '' @ dev_id r @ '' OFF''),
         r\<lparr>state := False\<rparr>, emit [DigitalWrite (pin r) False, DigitalWrite (ledPin r) False] w)
      else if strcasecmp_eq command ''TOGGLE'' then
        (let s = \<not> state r in
         (CMD_OK, snprintf_s responseSize (''Relay '' @ dev_id r @ '' '' @ on_off s),
          r\<lparr>state := s\<rparr>, emit [DigitalWrite (pin r) s, DigitalWrite (ledPin r) s] w))
      else
        (CMD_ERROR, snprintf_s responseSize (''Unknown relay command: '' @ command), r, w))"

definition RelayDevice_getStatus :: "RelayDevice \<Rightarrow> nat \<Rightarrow> World \<Rightarrow> bool \<times> string \<times> World" where
  "RelayDevice_getStatus r statusSize w =
     (True, snprintf_s statusSize (dev_id r @ '':'' @ on_off (state r)), w)"

subsection \<open>VICI valve\<close>

record ViciDevice = Device +
  viciId :: char

definition ViciDevice_new :: "string \<Rightarrow> char \<Rightarrow> ViciDevice" where
  "ViciDevice_new deviceId valveId =
     \<lparr>dev_id = take 11 deviceId, dev_type = DEVICE_VICI, enabled = False, viciId = valveId\<rparr>"

definition ViciDevice_initialize :: "ViciDevice \<Rightarrow> World \<Rightarrow> bool \<times> ViciDevice \<times> World" where
  "ViciDevice_initialize v w = (True, v\<lparr>enabled := True\<rparr>, w)"

definition setupViciRS485 :: "World \<Rightarrow> World" where
  "setupViciRS485 w = emit [RS485_begin 9600 SERIAL_8N1] w"

definition sendFrame :: "ViciDevice \<Rightarrow> string \<Rightarrow> World \<Rightarrow> World" where
  "sendFrame v core w = emit [RS485_write (snprintf_s 64 (''/'' @ [viciId v] @ core @ [CR]))] w"

text \<open>
  The loop of \<open>readLine\<close> over the bytes of its window; \<open>out\<close> is \<open>out[0..i-1]\<close>. Running out
  of bytes is the gap or the total timeout: both return \<open>i > 0\<close> (the gap exit is only taken
  when \<open>i > 0\<close>).
\<close>

fun readLine_loop :: "nat \<Rightarrow> byte list \<Rightarrow> byte list \<Rightarrow> bool \<times> byte list" where
  "readLine_loop mx out [] = (0 < length out, out)"
| "readLine_loop mx out (b # bs) =
     (if b = CR then (0 < length out, out)
      else if b = LF then readLine_loop mx out bs
      else readLine_loop mx (if length out + 1 < mx then out @ [b] else out) bs)"

definition readLine :: "nat \<Rightarrow> World \<Rightarrow> bool \<times> byte list \<times> World" where
  "readLine mx w =
     (let (bytes, w') = rx_window w; (ok, out) = readLine_loop mx [] bytes in (ok, out, w'))"

text \<open>\<open>respMax = None\<close> is the call with the default arguments \<open>resp = nullptr, respMax = 0\<close>.\<close>

definition sendCommand :: "ViciDevice \<Rightarrow> string \<Rightarrow> nat option \<Rightarrow> World \<Rightarrow> bool \<times> byte list \<times> World" where
  "sendCommand v core respMax w =
     (let w1 = sendFrame v core (setupViciRS485 w) in
      case respMax of
        None \<Rightarrow> (True, [], w1)
      | Some mx \<Rightarrow> if mx = 0 then (True, [], w1) else readLine mx w1)"

text \<open>A parameter is \<open>None\<close> for a null pointer; the dispatcher always passes its buffers.\<close>

definition ViciDevice_processCommand ::
  "ViciDevice \<Rightarrow> string \<Rightarrow> string option \<Rightarrow> string option \<Rightarrow> nat \<Rightarrow> World
     \<Rightarrow> CommandResult \<times> string \<times> ViciDevice \<times> World" where
  "ViciDevice_processCommand v command param1 param2 responseSize w =
     (let failed = (\<lambda>w'. (CMD_ERROR,
            snprintf_s responseSize (''VICI command failed or unknown: '' @ command), v, w')) in
      if strcasecmp_eq command ''GOTO'' \<and> param1 \<noteq> None then
        (let (ok, _, w') = sendCommand v (snprintf_s 16 (''GO'' @ the param1)) None w in
         if ok then (CMD_OK, snprintf_s responseSize (''VICI '' @ dev_id v @ '' moved to '' @ the param1), v, w')
         else failed w')
      else if strcasecmp_eq command ''TOGGLE'' then
        (let (ok, _, w') = sendCommand v ''TO'' None w in
         if ok then (CMD_OK, snprintf_s responseSize (''VICI '' @ dev_id v @ '' toggled''), v, w')
         else failed w')
      else if strcasecmp_eq command ''HOME'' then
        (let (ok, _, w') = sendCommand v ''HM'' None w in
         if ok then (CMD_OK, snprintf_s responseSize (''VICI '' @ dev_id v @ '' homed''), v, w')
         else failed w')
      else if strcasecmp_eq command ''POSITION'' then
        (let (ok, viciResponse, w') = sendCommand v ''CP'' (Some 128) w in
         if ok then (CMD_DATA, snprintf_s responseSize
                       (''VICI '' @ dev_id v @ '' position: '' @ cstr viciResponse), v, w')
         else failed w')
      else if strcasecmp_eq command ''STATUS'' then
        (let (ok, viciResponse, w') = sendCommand v ''STAT'' (Some 128) w in
         if ok then (CMD_DATA, snprintf_s responseSize
                       (''VICI '' @ dev_id v @ '' status: '' @ cstr viciResponse), v, w')
         else failed w')
      else if strcasecmp_eq command ''CW'' then
        (let (ok, _, w') = sendCommand v ''CW'' None w in
         if ok then (CMD_OK, snprintf_s responseSize (''VICI '' @ dev_id v @ '' moved CW''), v, w')
         else failed w')
      else if strcasecmp_eq command ''CCW'' then
        (let (ok, _, w') = sendCommand v ''CC'' None w in
         if ok then (CMD_OK, snprintf_s responseSize (''VICI '' @ dev_id v @ '' moved CCW''), v, w')
         else failed w')
      else failed w)"

definition ViciDevice_getStatus :: "ViciDevice \<Rightarrow> nat \<Rightarrow> World \<Rightarrow> bool \<times> string \<times> World" where
  "ViciDevice_getStatus v statusSize w =
     (let (ok, pos, w') = sendCommand v ''CP'' (Some 32) w in
      if ok then (True, snprintf_s statusSize (dev_id v @ '':POS_'' @ cstr pos), w')
      else (True, snprintf_s statusSize (dev_id v @ '':UNKNOWN''), w'))"

subsection \<open>Masterflex pump\<close>

record MasterflexDevice = Device +
  pumpId :: string
  initialized :: bool

datatype ResponseType = RESP_NONE | RESP_LINE | RESP_ACK | RESP_NAK

text \<open>\<open>Serial.print((int)respType)\<close>.\<close>

fun ResponseType_int :: "ResponseType \<Rightarrow> string" where
  "ResponseType_int RESP_NONE = ''0''"
| "ResponseType_int RESP_LINE = ''1''"
| "ResponseType_int RESP_ACK = ''2''"
| "ResponseType_int RESP_NAK = ''3''"

text \<open>
  Floating point is not modelled. What \<open>atof\<close> and \<open>printf\<close> make of a parameter is taken as
  given: \<open>fmt_speed\<close> is \<open>%04d\<close> of \<open>(int)rpm\<close> when \<open>abs(rpm) >= 1000\<close> and \<open>%06.1f\<close> of
  \<open>rpm\<close> otherwise, \<open>fmt_rpm\<close> is \<open>%.1f\<close>, \<open>fmt_rev\<close> is \<open>%08.2f\<close> and \<open>fmt_rev2\<close> is \<open>%.2f\<close>.
\<close>

record FloatFmt =
  fmt_speed :: "string \<Rightarrow> string"
  fmt_rpm :: "string \<Rightarrow> string"
  fmt_rev :: "string \<Rightarrow> string"
  fmt_rev2 :: "string \<Rightarrow> string"

definition MasterflexDevice_new :: "string \<Rightarrow> string \<Rightarrow> MasterflexDevice" where
  "MasterflexDevice_new deviceId masterflexId =
     \<lparr>dev_id = take 11 deviceId, dev_type = DEVICE_MASTERFLEX, enabled = False,
      pumpId = take 3 masterflexId, initialized = False\<rparr>"

definition MasterflexDevice_initialize ::
  "MasterflexDevice \<Rightarrow> World \<Rightarrow> bool \<times> MasterflexDevice \<times> World" where
  "MasterflexDevice_initialize p w = (True, p\<lparr>enabled := True\<rparr>, w)"

definition MasterflexDevice_initialize_eth ::
  "MasterflexDevice \<Rightarrow> World \<Rightarrow> bool \<times> MasterflexDevice \<times> World" where
  "MasterflexDevice_initialize_eth p w = (True, p\<lparr>enabled := True, initialized := False\<rparr>, w)"

definition setupMasterflexRS485 :: "World \<Rightarrow> World" where
  "setupMasterflexRS485 w = emit [RS485_begin 4800 SERIAL_7O1] w"

definition sendMasterflexFrame :: "MasterflexDevice \<Rightarrow> string \<Rightarrow> World \<Rightarrow> World" where
  "sendMasterflexFrame p command w =
     emit [RS485_write (snprintf_s 64 ([STX] @ ''P'' @ pumpId p @ command @ [CR]))] w"

text \<open>
  The loop of the serial sketch's \<open>readMasterflexResponse\<close> over the bytes of its window;
  \<open>buf\<close> is \<open>buffer[0..index-1]\<close>. On ACK and NAK the buffer is returned as it stands (no
  terminator is written, and no caller reads it). Running out of bytes is the timeout.
\<close>

fun readMasterflexResponse_loop :: "nat \<Rightarrow> byte list \<Rightarrow> byte list \<Rightarrow> ResponseType \<times> byte list" where
  "readMasterflexResponse_loop maxLen buf [] =
     (if 0 < length buf then RESP_LINE else RESP_NONE, buf)"
| "readMasterflexResponse_loop maxLen buf (b # bs) =
     (if b = ACK then (RESP_ACK, buf)
      else if b = NAK then (RESP_NAK, buf)
      else if b = CR then (if 0 < length buf then RESP_LINE else RESP_NONE, buf)
      else readMasterflexResponse_loop maxLen (if length buf + 1 < maxLen then buf @ [b] else buf) bs)"

definition readMasterflexResponse :: "nat \<Rightarrow> World \<Rightarrow> ResponseType \<times> byte list \<times> World" where
  "readMasterflexResponse maxLen w =
     (let (bytes, w') = rx_window w; (t, buf) = readMasterflexResponse_loop maxLen [] bytes
      in (t, buf, w'))"

text \<open>
  The Ethernet sketch's reader: ACK and NAK clear the buffer, LF is skipped, and the
  timeout is \<open>RESP_NONE\<close> whatever was stored.
\<close>

fun readMasterflexResponse_loop_eth :: "nat \<Rightarrow> byte list \<Rightarrow> byte list \<Rightarrow> ResponseType \<times> byte list" where
  "readMasterflexResponse_loop_eth maxLen buf [] = (RESP_NONE, buf)"
| "readMasterflexResponse_loop_eth maxLen buf (b # bs) =
     (if b = ACK then (RESP_ACK, [])
      else if b = NAK then (RESP_NAK, [])
      else if b = CR then (if 0 < length buf then RESP_LINE else RESP_NONE, buf)
      else if b = LF then readMasterflexResponse_loop_eth maxLen buf bs
      else readMasterflexResponse_loop_eth maxLen (if length buf + 1 < maxLen then buf @ [b] else buf) bs)"

definition readMasterflexResponse_eth :: "nat \<Rightarrow> World \<Rightarrow> ResponseType \<times> byte list \<times> World" where
  "readMasterflexResponse_eth maxLen w =
     (let (bytes, w') = rx_window w; (t, buf) = readMasterflexResponse_loop_eth maxLen [] bytes
      in (t, buf, w'))"

text \<open>\<open>strstr(hay, needle) != NULL\<close>.\<close>

fun strstr :: "string \<Rightarrow> string \<Rightarrow> bool" where
  "strstr [] needle = (needle = [])"
| "strstr (h # hs) needle = (take (length needle) (h # hs) = needle \<or> strstr hs needle)"

definition initializePump :: "MasterflexDevice \<Rightarrow> World \<Rightarrow> bool \<times> MasterflexDevice \<times> World" where
  "initializePump p w =
     (let w1 = emit [Serial_print ''Initializing Masterflex pump '', Serial_print (dev_id p),
                     Serial_println ''...''] w;
          w2 = emit [RS485_write [ENQ]] (setupMasterflexRS485 w1);
          (respType, response, w3) = readMasterflexResponse 96 w2;
          w4 = emit [Serial_print ''Init response type: '',
                     Serial_print (ResponseType_int respType)] w3
      in
      if respType = RESP_LINE then
        (let w5 = emit [Serial_print '', content: '', Serial_println (cstr response)] w4 in
         if strstr (cstr response) ''P?'' then
           (let w6 = emit [Serial_print ''Pump requesting ID assignment for ID '',
                           Serial_println (pumpId p)] w5;
                w7 = emit [RS485_write (snprintf_s 16 ([STX] @ ''P'' @ pumpId p @ [CR]))] w6;
                (ackType, _, w8) = readMasterflexResponse 96 w7;
                w9 = emit [Serial_print ''ACK response type: '',
                           Serial_println (ResponseType_int ackType)] w8
            in
            if ackType = RESP_ACK then
              (True, p\<lparr>initialized := True\<rparr>,
               emit [Serial_print ''Pump '', Serial_print (dev_id p),
                     Serial_println '' ID assigned successfully''] w9)
            else
              (False, p,
               emit [Serial_print ''Failed to assign pump ID (no ACK), got type: '',
                     Serial_println (ResponseType_int ackType)] w9))
         else
           (False, p,
            emit [Serial_print ''Expected P? response, got: '', Serial_println (cstr response)] w5))
      else
        (False, p, emit [Serial_println ''No response to ENQ''] w4))"

text \<open>One request and its classified reply, as every command branch of the serial sketch does.\<close>

definition transact :: "MasterflexDevice \<Rightarrow> string \<Rightarrow> World \<Rightarrow> ResponseType \<times> byte list \<times> World" where
  "transact p core w = readMasterflexResponse 128 (sendMasterflexFrame p core w)"

definition MasterflexDevice_processCommand ::
  "FloatFmt \<Rightarrow> MasterflexDevice \<Rightarrow> string \<Rightarrow> string option \<Rightarrow> string option \<Rightarrow> nat \<Rightarrow> World
     \<Rightarrow> CommandResult \<times> string \<times> MasterflexDevice \<times> World" where
  "MasterflexDevice_processCommand fl p command param1 param2 responseSize w =
     (let failed = (\<lambda>w'. (CMD_ERROR,
            snprintf_s responseSize (''Masterflex command failed or unknown: '' @ command), p, w')) in
      if strcasecmp_eq command ''INIT'' then
        (let (ok, p', w') = initializePump p w in
         if ok then
           (CMD_OK, snprintf_s responseSize
              (''Masterflex '' @ dev_id p @ '' initialized successfully''), p', w')
         else
           (CMD_ERROR, snprintf_s responseSize
              (''Failed to initialize Masterflex '' @ dev_id p @
               '' - check serial output for details''), p', w'))
      else if \<not> initialized p then
        (CMD_ERROR, snprintf_s responseSize (''Masterflex '' @ dev_id p @ '' not initialized''), p, w)
      else
        (let w1 = setupMasterflexRS485 w in
         if strcasecmp_eq command ''SPEED'' \<and> param1 \<noteq> None then
           (let direction = (if param2 \<noteq> None \<and> take 1 (the param2) = ''-'' then CHR ''-'' else CHR ''+'');
                speedCmd = snprintf_s 32 (''S'' @ [direction] @ fmt_speed fl (the param1));
                (respType, _, w') = transact p speedCmd w1
            in
            if respType = RESP_ACK then
              (CMD_OK, snprintf_s responseSize
                 (''Masterflex '' @ dev_id p @ '' speed set to '' @ [direction] @
                  fmt_rpm fl (the param1) @ '' RPM''), p, w')
            else failed w')
         else if strcasecmp_eq command ''START'' \<or> strcasecmp_eq command ''GO'' then
           (let (respType, _, w') = transact p ''G'' w1 in
            if respType = RESP_ACK then
              (CMD_OK, snprintf_s responseSize (''Masterflex '' @ dev_id p @ '' started''), p, w')
            else failed w')
         else if strcasecmp_eq command ''STOP'' \<or> strcasecmp_eq command ''HALT'' then
           (let (respType, _, w') = transact p ''H'' w1 in
            if respType = RESP_ACK then
              (CMD_OK, snprintf_s responseSize (''Masterflex '' @ dev_id p @ '' stopped''), p, w')
            else failed w')
         else if strcasecmp_eq command ''REV'' \<and> param1 \<noteq> None then
           (let revCmd = snprintf_s 32 (''V'' @ fmt_rev fl (the param1));
                (respType, _, w') = transact p revCmd w1
            in
            if respType = RESP_ACK then
              (CMD_OK, snprintf_s responseSize
                 (''Masterflex '' @ dev_id p @ '' revolutions set to '' @ fmt_rev2 fl (the param1)),
               p, w')
            else failed w')
         else if strcasecmp_eq command ''STATUS'' then
           (let (respType, mfResponse, w') = transact p ''I'' w1 in
            if respType = RESP_LINE then
              (CMD_DATA, snprintf_s responseSize
                 (''Masterflex '' @ dev_id p @ '' status: '' @ cstr mfResponse), p, w')
            else failed w')
         else if strcasecmp_eq command ''REMOTE'' then
           (let (respType, _, w') = transact p ''R'' w1 in
            if respType = RESP_ACK then
              (CMD_OK, snprintf_s responseSize
                 (''Masterflex '' @ dev_id p @ '' remote mode enabled''), p, w')
            else failed w')
         else if strcasecmp_eq command ''LOCAL'' then
           (let (respType, _, w') = transact p ''L'' w1 in
            if respType = RESP_ACK then
              (CMD_OK, snprintf_s responseSize
                 (''Masterflex '' @ dev_id p @ '' local mode enabled''), p, w')
            else failed w')
         else failed w1))"

definition MasterflexDevice_getStatus :: "MasterflexDevice \<Rightarrow> nat \<Rightarrow> World \<Rightarrow> bool \<times> string \<times> World" where
  "MasterflexDevice_getStatus p statusSize w =
     (if \<not> initialized p then (True, snprintf_s statusSize (dev_id p @ '':NOT_INIT''), w)
      else
        (let (respType, _, w') = transact p ''I'' (setupMasterflexRS485 w) in
         if respType = RESP_LINE then (True, snprintf_s statusSize (dev_id p @ '':ACTIVE''), w')
         else (True, snprintf_s statusSize (dev_id p @ '':UNKNOWN''), w')))"

text \<open>The Ethernet sketch: no \<open>initialized\<close> test, and the handshake inline in \<open>INIT\<close>.\<close>

definition transact_eth :: "MasterflexDevice \<Rightarrow> string \<Rightarrow> World \<Rightarrow> ResponseType \<times> byte list \<times> World" where
  "transact_eth p core w = readMasterflexResponse_eth 128 (sendMasterflexFrame p core w)"

definition MasterflexDevice_processCommand_eth ::
  "FloatFmt \<Rightarrow> MasterflexDevice \<Rightarrow> string \<Rightarrow> string option \<Rightarrow> string option \<Rightarrow> nat \<Rightarrow> World
     \<Rightarrow> CommandResult \<times> string \<times> MasterflexDevice \<times> World" where
  "MasterflexDevice_processCommand_eth fl p command param1 param2 responseSize w =
     (let failed = (\<lambda>w'. (CMD_ERROR,
            snprintf_s responseSize (''Masterflex command failed or unknown: '' @ command), p, w'));
          init_failed = (\<lambda>w'. (CMD_ERROR,
            snprintf_s responseSize (''Masterflex '' @ dev_id p @ '' init failed''), p, w'));
          w1 = setupMasterflexRS485 w
      in
      if strcasecmp_eq command ''INIT'' then
        (let (r, mfResp, w2) = readMasterflexResponse_eth 128 (emit [RS485_write [ENQ]] w1) in
         if r = RESP_LINE \<and> take 2 (cstr mfResp) = ''P?'' then
           (let (r', _, w3) = transact_eth p (snprintf_s 8 (''I'' @ pumpId p)) w2 in
            if r' = RESP_ACK then
              (CMD_OK, snprintf_s responseSize (''Masterflex '' @ dev_id p @ '' initialized''),
               p\<lparr>initialized := True\<rparr>, w3)
            else init_failed w3)
         else init_failed w2)
      else if strcasecmp_eq command ''SPEED'' \<and> param1 \<noteq> None then
        (let dir = (if param2 \<noteq> None \<and> the param2 \<noteq> [] then hd (the param2) else CHR ''+'');
             speedCmd = snprintf_s 32 (''S'' @ [dir] @ fmt_speed fl (the param1));
             (r, _, w') = transact_eth p speedCmd w1
         in
         if r = RESP_ACK then
           (CMD_OK, snprintf_s responseSize
              (''Masterflex '' @ dev_id p @ '' speed set to '' @ [dir] @
               fmt_rpm fl (the param1) @ '' RPM''), p, w')
         else failed w')
      else if strcasecmp_eq command ''START'' \<or> strcasecmp_eq command ''GO'' then
        (let (r, _, w') = transact_eth p ''G'' w1 in
         if r = RESP_ACK then
           (CMD_OK, snprintf_s responseSize (''Masterflex '' @ dev_id p @ '' started''), p, w')
         else failed w')
      else if strcasecmp_eq command ''STOP'' \<or> strcasecmp_eq command ''HALT'' then
        (let (r, _, w') = transact_eth p ''H'' w1 in
         if r = RESP_ACK then
           (CMD_OK, snprintf_s responseSize (''Masterflex '' @ dev_id p @ '' stopped''), p, w')
         else failed w')
      else if strcasecmp_eq command ''REV'' \<and> param1 \<noteq> None then
        (let revCmd = snprintf_s 32 (''V'' @ fmt_rev fl (the param1));
             (r, _, w') = transact_eth p revCmd w1
         in
         if r = RESP_ACK then
           (CMD_OK, snprintf_s responseSize
              (''Masterflex '' @ dev_id p @ '' revolutions set to '' @ fmt_rev2 fl (the param1)),
            p, w')
         else failed w')
      else if strcasecmp_eq command ''STATUS'' then
        (let (r, mfResp, w') = transact_eth p ''I'' w1 in
         if r = RESP_LINE then
           (CMD_DATA, snprintf_s responseSize
              (''Masterflex '' @ dev_id p @ '' status: '' @ cstr mfResp), p, w')
         else failed w')
      else if strcasecmp_eq command ''REMOTE'' then
        (let (r, _, w') = transact_eth p ''R'' w1 in
         if r = RESP_ACK then
           (CMD_OK, snprintf_s responseSize
              (''Masterflex '' @ dev_id p @ '' remote mode enabled''), p, w')
         else failed w')
      else if strcasecmp_eq command ''LOCAL'' then
        (let (r, _, w') = transact_eth p ''L'' w1 in
         if r = RESP_ACK then
           (CMD_OK, snprintf_s responseSize
              (''Masterflex '' @ dev_id p @ '' local mode enabled''), p, w')
         else failed w')
      else failed w1)"

definition MasterflexDevice_getStatus_eth :: "MasterflexDevice \<Rightarrow> nat \<Rightarrow> World \<Rightarrow> bool \<times> string \<times> World" where
  "MasterflexDevice_getStatus_eth p statusSize w =
     (if \<not> initialized p then (True, snprintf_s statusSize (dev_id p @ '':NOT_INIT''), w)
      else
        (let (r, _, w') = readMasterflexResponse_eth 64
                            (sendMasterflexFrame p ''I'' (setupMasterflexRS485 w)) in
         if r = RESP_LINE then (True, snprintf_s statusSize (dev_id p @ '':ACTIVE''), w')
         else (True, snprintf_s statusSize (dev_id p @ '':UNKNOWN''), w')))"

subsection \<open>The common interface\<close>

text \<open>
  A \<open>Device*\<close> is one of the three classes; the virtual calls dispatch on it. The relay and
  the valve are the same code in both sketches; the pump differs.
\<close>

datatype DevicePtr = Relay RelayDevice | Vici ViciDevice | Masterflex MasterflexDevice

datatype Sketch = SerialSketch | EthernetSketch

fun Device_id :: "DevicePtr \<Rightarrow> string" where
  "Device_id (Relay r) = dev_id r"
| "Device_id (Vici v) = dev_id v"
| "Device_id (Masterflex p) = dev_id p"

fun Device_enabled :: "DevicePtr \<Rightarrow> bool" where
  "Device_enabled (Relay r) = enabled r"
| "Device_enabled (Vici v) = enabled v"
| "Device_enabled (Masterflex p) = enabled p"

fun Device_initialize :: "Sketch \<Rightarrow> DevicePtr \<Rightarrow> World \<Rightarrow> bool \<times> DevicePtr \<times> World" where
  "Device_initialize sk (Relay r) w = (let (ok, r', w') = RelayDevice_initialize r w in (ok, Relay r', w'))"
| "Device_initialize sk (Vici v) w = (let (ok, v', w') = ViciDevice_initialize v w in (ok, Vici v', w'))"
| "Device_initialize SerialSketch (Masterflex p) w =
     (let (ok, p', w') = MasterflexDevice_initialize p w in (ok, Masterflex p', w'))"
| "Device_initialize EthernetSketch (Masterflex p) w =
     (let (ok, p', w') = MasterflexDevice_initialize_eth p w in (ok, Masterflex p', w'))"

fun Device_processCommand ::
  "Sketch \<Rightarrow> FloatFmt \<Rightarrow> DevicePtr \<Rightarrow> string \<Rightarrow> string option \<Rightarrow> string option \<Rightarrow> nat \<Rightarrow> World
     \<Rightarrow> CommandResult \<times> string \<times> DevicePtr \<times> World" where
  "Device_processCommand sk fl (Relay r) command param1 param2 responseSize w =
     (let (res, response, r', w') = RelayDevice_processCommand r command param1 param2 responseSize w
      in (res, response, Relay r', w'))"
| "Device_processCommand sk fl (Vici v) command param1 param2 responseSize w =
     (let (res, response, v', w') = ViciDevice_processCommand v command param1 param2 responseSize w
      in (res, response, Vici v', w'))"
| "Device_processCommand SerialSketch fl (Masterflex p) command param1 param2 responseSize w =
     (let (res, response, p', w') =
            MasterflexDevice_processCommand fl p command param1 param2 responseSize w
      in (res, response, Masterflex p', w'))"
| "Device_processCommand EthernetSketch fl (Masterflex p) command param1 param2 responseSize w =
     (let (res, response, p', w') =
            MasterflexDevice_processCommand_eth fl p command param1 param2 responseSize w
      in (res, response, Masterflex p', w'))"

fun Device_getStatus :: "Sketch \<Rightarrow> DevicePtr \<Rightarrow> nat \<Rightarrow> World \<Rightarrow> bool \<times> string \<times> World" where
  "Device_getStatus sk (Relay r) statusSize w = RelayDevice_getStatus r statusSize w"
| "Device_getStatus sk (Vici v) statusSize w = ViciDevice_getStatus v statusSize w"
| "Device_getStatus SerialSketch (Masterflex p) statusSize w = MasterflexDevice_getStatus p statusSize w"
| "Device_getStatus EthernetSketch (Masterflex p) statusSize w = MasterflexDevice_getStatus_eth p statusSize w"

section \<open>Device manager\<close>

definition MAX_DEVICES :: nat where "MAX_DEVICES = 16"

text \<open>
  The array of \<open>MAX_DEVICES\<close> pointers (\<open>None\<close> is \<open>nullptr\<close>) and the count. Every device is
  its own object (each comes from its own \<open>new\<close>), so an entry is the object itself.
\<close>

record DeviceManager =
  devices :: "DevicePtr option list"
  deviceCount :: nat

definition DeviceManager_new :: DeviceManager where
  "DeviceManager_new = \<lparr>devices = replicate MAX_DEVICES None, deviceCount = 0\<rparr>"

text \<open>
  \<open>addDevice\<close>, the same in both sketches: the pointer is stored, the count incremented, and
  \<open>initialize()\<close> then runs on the stored object.
\<close>

definition addDevice :: "Sketch \<Rightarrow> DeviceManager \<Rightarrow> DevicePtr \<Rightarrow> World \<Rightarrow> bool \<times> DeviceManager \<times> World" where
  "addDevice sk m device w =
     (if deviceCount m \<ge> MAX_DEVICES then (False, m, w)
      else
        (let (ok, device', w') = Device_initialize sk device w in
         (ok, m\<lparr>devices := (devices m)[deviceCount m := Some device'],
                deviceCount := deviceCount m + 1\<rparr>, w')))"

text \<open>The entries the loops visit: \<open>devices[0 .. deviceCount - 1]\<close>.\<close>

definition registered :: "DeviceManager \<Rightarrow> DevicePtr option list" where
  "registered m = take (deviceCount m) (devices m)"

fun findDevice_loop :: "DevicePtr option list \<Rightarrow> string \<Rightarrow> nat \<Rightarrow> nat option" where
  "findDevice_loop [] deviceId i = None"
| "findDevice_loop (None # ds) deviceId i = findDevice_loop ds deviceId (Suc i)"
| "findDevice_loop (Some d # ds) deviceId i =
     (if strcasecmp_eq (Device_id d) deviceId then Some i else findDevice_loop ds deviceId (Suc i))"

text \<open>\<open>findDevice\<close> / \<open>find\<close>: the index of the entry whose pointer is returned.\<close>

definition findDevice :: "DeviceManager \<Rightarrow> string \<Rightarrow> nat option" where
  "findDevice m deviceId = findDevice_loop (registered m) deviceId 0"

text \<open>The serial sketch's \<open>getAllStatus\<close>; \<open>statusBuffer\<close> is the C string built so far.\<close>

fun getAllStatus_loop :: "nat \<Rightarrow> DevicePtr option list \<Rightarrow> string \<Rightarrow> World \<Rightarrow> string \<times> World" where
  "getAllStatus_loop bufferSize [] statusBuffer w = (statusBuffer, w)"
| "getAllStatus_loop bufferSize (None # ds) statusBuffer w = getAllStatus_loop bufferSize ds statusBuffer w"
| "getAllStatus_loop bufferSize (Some d # ds) statusBuffer w =
     (if Device_enabled d then
        (let (ok, deviceStatus, w') = Device_getStatus SerialSketch d 64 w in
         if ok then
           (let sb1 = (if length statusBuffer > 0
                       then strncat_s statusBuffer '', ''
                              (size_sub (size_sub bufferSize (length statusBuffer)) 1)
                       else statusBuffer);
                sb2 = strncat_s sb1 deviceStatus (size_sub (size_sub bufferSize (length sb1)) 1)
            in getAllStatus_loop bufferSize ds sb2 w')
         else getAllStatus_loop bufferSize ds statusBuffer w')
      else getAllStatus_loop bufferSize ds statusBuffer w)"

definition getAllStatus :: "DeviceManager \<Rightarrow> nat \<Rightarrow> World \<Rightarrow> string \<times> World" where
  "getAllStatus m bufferSize w = getAllStatus_loop bufferSize (registered m) [] w"

text \<open>
  The Ethernet sketch's \<open>allStatus\<close>: no \<open>enabled\<close> test, the separator before every entry
  but the one at index 0, \<open>strlcat\<close> for the bound.
\<close>

fun allStatus_loop :: "nat \<Rightarrow> nat \<Rightarrow> DevicePtr option list \<Rightarrow> string \<Rightarrow> World \<Rightarrow> string \<times> World" where
  "allStatus_loop mx i [] out w = (out, w)"
| "allStatus_loop mx i (None # ds) out w = allStatus_loop mx (Suc i) ds out w"
| "allStatus_loop mx i (Some d # ds) out w =
     (let out1 = (if i > 0 then strlcat_s out '', '' mx else out);
          (_, buf, w') = Device_getStatus EthernetSketch d 96 w
      in allStatus_loop mx (Suc i) ds (strlcat_s out1 buf mx) w')"

definition allStatus :: "DeviceManager \<Rightarrow> nat \<Rightarrow> World \<Rightarrow> string \<times> World" where
  "allStatus m mx w = allStatus_loop mx 0 (registered m) [] w"

section \<open>Command parsing and the command servers\<close>

text \<open>
  \<open>parseCommand\<close> of the serial sketch: up to four \<open>strtok\<close> tokens, copied with
  \<open>strncpy\<close> (15, 15, 31 and 31 characters) into buffers of 16, 16, 32 and 32 bytes whose
  first byte was cleared. \<open>junk k\<close> is what follows buffer \<open>k\<close>'s copied characters in memory
  when \<open>strncpy\<close> wrote no terminator. A failed \<open>strdup\<close> is not modelled.
\<close>

definition parseCommand :: "(nat \<Rightarrow> string) \<Rightarrow> string \<Rightarrow> string \<times> string \<times> string \<times> string" where
  "parseCommand junk input =
     (case strtok input of
        None \<Rightarrow> ([], [], [], [])
      | Some (t1, r1) \<Rightarrow>
          (let deviceId = strncpy_s 15 t1 (junk 0) in
           case strtok r1 of
             None \<Rightarrow> (deviceId, [], [], [])
           | Some (t2, r2) \<Rightarrow>
               (let command = strncpy_s 15 t2 (junk 1) in
                case strtok r2 of
                  None \<Rightarrow> (deviceId, command, [], [])
                | Some (t3, r3) \<Rightarrow>
                    (let param1 = strncpy_s 31 t3 (junk 2) in
                     case strtok r3 of
                       None \<Rightarrow> (deviceId, command, param1, [])
                     | Some (t4, r4) \<Rightarrow> (deviceId, command, param1, strncpy_s 31 t4 (junk 3))))))"

text \<open>The Ethernet sketch first cuts the copy at the first CR or LF.\<close>

definition parseCommand_eth :: "(nat \<Rightarrow> string) \<Rightarrow> string \<Rightarrow> string \<times> string \<times> string \<times> string" where
  "parseCommand_eth junk input = parseCommand junk (takeWhile (\<lambda>c. c \<noteq> CR \<and> c \<noteq> LF) input)"

definition result_prefix :: "CommandResult \<Rightarrow> string" where
  "result_prefix res = (case res of CMD_OK \<Rightarrow> ''OK: '' | CMD_DATA \<Rightarrow> ''DATA: '' | CMD_ERROR \<Rightarrow> ''ERROR: '')"

definition invalid_format :: string where
  "invalid_format = ''ERROR: Invalid command format. Use DEVICE_ID:COMMAND[:PARAM1[:PARAM2]]''"

definition help_lines :: "string list" where
  "help_lines =
     [''OK: Available commands:'',
      ''  STATUS - Get all device statuses'',
      ''  DEVICE_ID:COMMAND[:PARAM1[:PARAM2]]'',
      ''  Examples:'',
      ''    REL_01:ON'',
      ''    VICI_01:GOTO:A'',
      ''    MFLEX_01:SPEED:100.0:+'']"

text \<open>
  \<open>processSerialCommand\<close> of the serial sketch. The device found is updated in place, so
  its entry is written back.
\<close>

definition processSerialCommand ::
  "FloatFmt \<Rightarrow> (nat \<Rightarrow> string) \<Rightarrow> DeviceManager \<Rightarrow> string \<Rightarrow> World \<Rightarrow> DeviceManager \<times> World" where
  "processSerialCommand fl junk m commandStr0 w =
     (let commandStr = trim commandStr0 in
      if strcasecmp_eq commandStr ''STATUS'' then
        (let (all_status, w') = getAllStatus m 512 w in
         (m, emit [Serial_print ''DATA: '', Serial_println all_status] w'))
      else if strcasecmp_eq commandStr ''HELP'' then
        (m, emit (map Serial_println help_lines) w)
      else
        (let (deviceId, command, param1, param2) = parseCommand junk commandStr in
         if length deviceId = 0 \<or> length command = 0 then
           (m, emit [Serial_println invalid_format] w)
         else
           (case findDevice m deviceId of
              None \<Rightarrow> (m, emit [Serial_print ''ERROR: Device not found: '', Serial_println deviceId] w)
            | Some i \<Rightarrow>
                (let (result, response, d', w') =
                       Device_processCommand SerialSketch fl (the (devices m ! i))
                         command (Some param1) (Some param2) 256 w
                 in (m\<lparr>devices := (devices m)[i := Some d']\<rparr>,
                     emit [Serial_print (result_prefix result), Serial_println response] w')))))"

definition help_eth :: string where
  "help_eth = ''OK: Commands -> STATUS; DEVICE_ID:COMMAND[:PARAM1[:PARAM2]] e.g. REL_01:ON, VICI_01:GOTO:A, MFLEX_01:SPEED:100.0:+''"

text \<open>
  \<open>handleCommandString\<close> of the Ethernet sketch returns the response; its callers write it
  with one \<open>println\<close> to the client or to the console.
\<close>

definition handleCommandString ::
  "FloatFmt \<Rightarrow> (nat \<Rightarrow> string) \<Rightarrow> DeviceManager \<Rightarrow> string \<Rightarrow> World \<Rightarrow> string \<times> DeviceManager \<times> World" where
  "handleCommandString fl junk m commandStr w =
     (let cmd = trim commandStr in
      if strcasecmp_eq cmd ''STATUS'' then
        (let (all, w') = allStatus m 512 w in (''DATA: '' @ all, m, w'))
      else if strcasecmp_eq cmd ''HELP'' then (help_eth, m, w)
      else
        (let (deviceId, command, p1, p2) = parseCommand_eth junk cmd in
         if deviceId = [] \<or> command = [] then (invalid_format, m, w)
         else
           (case findDevice m deviceId of
              None \<Rightarrow> (''ERROR: Device not found: '' @ deviceId, m, w)
            | Some i \<Rightarrow>
                (let (res, response, d', w') =
                       Device_processCommand EthernetSketch fl (the (devices m ! i))
                         command (Some p1) (Some p2) 256 w
                 in (result_prefix res @ response, m\<lparr>devices := (devices m)[i := Some d']\<rparr>, w')))))"

text \<open>The lines the console has received: a \<open>print\<close> extends the open line, a \<open>println\<close> ends it.\<close>

fun serial_lines_from :: "string \<Rightarrow> Event list \<Rightarrow> string list" where
  "serial_lines_from cur [] = []"
| "serial_lines_from cur (Serial_print s # es) = serial_lines_from (cur @ s) es"
| "serial_lines_from cur (Serial_println s # es) = (cur @ s) # serial_lines_from [] es"
| "serial_lines_from cur (e # es) = serial_lines_from cur es"

definition serial_lines :: "Event list \<Rightarrow> string list" where
  "serial_lines es = serial_lines_from [] es"

section \<open>Start-up registry\<close>

text \<open>
  The devices \<open>setup()\<close> registers, in its order, in both sketches: four relays named by
  \<open>snprintf("REL_%02d", i)\<close>, the valve and the pump. The banner the serial sketch prints
  around the registrations is left out.
\<close>

definition setup_devices :: "DevicePtr list" where
  "setup_devices =
     [Relay (RelayDevice_new ''REL_01'' 1), Relay (RelayDevice_new ''REL_02'' 2),
      Relay (RelayDevice_new ''REL_03'' 3), Relay (RelayDevice_new ''REL_04'' 4),
      Vici (ViciDevice_new ''VICI_01'' (CHR ''3'')),
      Masterflex (MasterflexDevice_new ''MFLEX_01'' ''01'')]"

fun addDevices :: "Sketch \<Rightarrow> DevicePtr list \<Rightarrow> DeviceManager \<Rightarrow> World \<Rightarrow> DeviceManager \<times> World" where
  "addDevices sk [] m w = (m, w)"
| "addDevices sk (d # ds) m w = (let (_, m', w') = addDevice sk m d w in addDevices sk ds m' w')"

definition setup_registry :: "Sketch \<Rightarrow> World \<Rightarrow> DeviceManager \<times> World" where
  "setup_registry sk w = addDevices sk setup_devices DeviceManager_new w"

section \<open>Notions used in the statements\<close>

text \<open>
  What every reachable manager satisfies: sixteen slots, a count within them, and every
  registered entry a device whose \<open>initialize()\<close> has run (so \<open>enabled\<close> is set).
\<close>

definition slot_enabled :: "DevicePtr option \<Rightarrow> bool" where
  "slot_enabled s = (case s of None \<Rightarrow> False | Some d \<Rightarrow> Device_enabled d)"

definition registry_inv :: "DeviceManager \<Rightarrow> bool" where
  "registry_inv m =
     (length (devices m) = MAX_DEVICES \<and> deviceCount m \<le> MAX_DEVICES
      \<and> list_all slot_enabled (registered m))"

text \<open>The bytes the \<open>k\<close>-th coming read will see.\<close>

definition reply :: "World \<Rightarrow> nat \<Rightarrow> byte list" where
  "reply w k = (if k < length (rx w) then rx w ! k else [])"

text \<open>The events an operation added, given the world before and after it.\<close>

definition new_events :: "World \<Rightarrow> World \<Rightarrow> Event list" where
  "new_events w w' = drop (length (events w)) (events w')"

fun is_serial :: "Event \<Rightarrow> bool" where
  "is_serial (Serial_print s) = True"
| "is_serial (Serial_println s) = True"
| "is_serial e = False"

text \<open>A response line carries one of the three tags.\<close>

definition tagged :: "string \<Rightarrow> bool" where
  "tagged s = (take 4 s = ''OK: '' \<or> take 6 s = ''DATA: '' \<or> take 7 s = ''ERROR: '')"

text \<open>
  The aggregate status as the specification words it: the status strings of the enabled
  devices, in registration order (each query in turn on the bus), joined by \<open>", "\<close>.
\<close>

fun enabled_statuses :: "Sketch \<Rightarrow> nat \<Rightarrow> DevicePtr option list \<Rightarrow> World \<Rightarrow> string list \<times> World" where
  "enabled_statuses sk sz [] w = ([], w)"
| "enabled_statuses sk sz (None # ds) w = enabled_statuses sk sz ds w"
| "enabled_statuses sk sz (Some d # ds) w =
     (if Device_enabled d then
        (let (_, st, w') = Device_getStatus sk d sz w;
             (sts, w'') = enabled_statuses sk sz ds w'
         in (st # sts, w''))
      else enabled_statuses sk sz ds w)"

fun join_comma :: "string list \<Rightarrow> string" where
  "join_comma [] = []"
| "join_comma [s] = s"
| "join_comma (s # ss) = s @ '', '' @ join_comma ss"

text \<open>A stand-in for the floating-point renderings, for evaluating concrete runs.\<close>

definition plain_fmt :: FloatFmt where
  "plain_fmt = \<lparr>fmt_speed = (\<lambda>s. s), fmt_rpm = (\<lambda>s. s), fmt_rev = (\<lambda>s. s), fmt_rev2 = (\<lambda>s. s)\<rparr>"

definition no_junk :: "nat \<Rightarrow> string" where
  "no_junk k = []"

definition world0 :: "byte list list \<Rightarrow> World" where
  "world0 replies = \<lparr>events = [], rx = replies\<rparr>"

text \<open>A run of commands on one relay, each through \<open>processCommand\<close> with a 256-byte response.\<close>

fun relay_run :: "RelayDevice \<Rightarrow> string list \<Rightarrow> World \<Rightarrow> RelayDevice \<times> World" where
  "relay_run r [] w = (r, w)"
| "relay_run r (c # cs) w =
     (let (_, _, r', w') = RelayDevice_processCommand r c None None 256 w in relay_run r' cs w')"

text \<open>A registry filled to capacity: the start-up devices and ten more valves.\<close>

definition sixteen_devices :: "DevicePtr list" where
  "sixteen_devices =
     setup_devices @ map (\<lambda>c. Vici (ViciDevice_new (''VICI_'' @ [c]) c)) ''ABCDEFGHIJ''"

definition full_registry :: "Sketch \<Rightarrow> DeviceManager" where
  "full_registry sk = fst (addDevices sk sixteen_devices DeviceManager_new (world0 []))"

text \<open>
  Reading a window of bytes: the reader stops at the first ACK, NAK or CR; the bytes
  before it are the payload; \<open>store\<close> is the buffer after the payload went through
  \<open>if (index + 1 < maxLen) buffer[index++] = byte\<close>.
\<close>

definition stop_byte :: "byte \<Rightarrow> bool" where
  "stop_byte b = (b = ACK \<or> b = NAK \<or> b = CR)"

definition payload :: "byte list \<Rightarrow> byte list" where
  "payload bytes = takeWhile (\<lambda>b. \<not> stop_byte b) bytes"

definition first_stop :: "byte list \<Rightarrow> byte option" where
  "first_stop bytes = (case dropWhile (\<lambda>b. \<not> stop_byte b) bytes of [] \<Rightarrow> None | b # _ \<Rightarrow> Some b)"

fun store :: "nat \<Rightarrow> byte list \<Rightarrow> byte list \<Rightarrow> byte list" where
  "store maxLen buf [] = buf"
| "store maxLen buf (b # bs) = store maxLen (if length buf + 1 < maxLen then buf @ [b] else buf) bs"

text \<open>
  What the valve's \<open>readLine\<close> keeps of a window: the bytes before the first CR, LF bytes
  dropped. \<open>vici_sent\<close> is the world after one valve frame went out and nothing was read.
\<close>

definition line_payload :: "byte list \<Rightarrow> byte list" where
  "line_payload bytes = filter (\<lambda>b. b \<noteq> LF) (takeWhile (\<lambda>b. b \<noteq> CR) bytes)"

definition vici_sent :: "ViciDevice \<Rightarrow> string \<Rightarrow> World \<Rightarrow> World" where
  "vici_sent v core w =
     w\<lparr>events := events w @ [RS485_begin 9600 SERIAL_8N1,
                               RS485_write (take 63 (CHR ''/'' # viciId v # core @ [CR]))]\<rparr>"

text \<open>
  The handshake of \<open>INIT\<close> goes through: the window after ENQ classifies as a data line
  that holds the marker \<open>P?\<close> (anywhere in it for the serial sketch's \<open>strstr\<close>, at its start
  for the Ethernet sketch's \<open>strncmp\<close>), and the window after the address-assignment frame
  classifies as ACK.
\<close>

definition handshake_ok :: "World \<Rightarrow> bool" where
  "handshake_ok w =
     (case readMasterflexResponse_loop 96 [] (reply w 0) of
        (t, buf) \<Rightarrow> t = RESP_LINE \<and> strstr (cstr buf) ''P?''
                    \<and> fst (readMasterflexResponse_loop 96 [] (reply w 1)) = RESP_ACK)"

definition handshake_ok_eth :: "World \<Rightarrow> bool" where
  "handshake_ok_eth w =
     (case readMasterflexResponse_loop_eth 128 [] (reply w 0) of
        (t, buf) \<Rightarrow> t = RESP_LINE \<and> take 2 (cstr buf) = ''P?''
                    \<and> fst (readMasterflexResponse_loop_eth 128 [] (reply w 1)) = RESP_ACK)"

text \<open>
  A parsed line is malformed when its device-id or its command field is empty; a line is
  global when, trimmed, it is \<open>STATUS\<close> or \<open>HELP\<close> in any case.
\<close>

definition malformed :: "string \<times> string \<times> string \<times> string \<Rightarrow> bool" where
  "malformed parsed = (fst parsed = [] \<or> fst (snd parsed) = [])"

definition is_global :: "string \<Rightarrow> bool" where
  "is_global line = (strcasecmp_eq (trim line) ''STATUS'' \<or> strcasecmp_eq (trim line) ''HELP'')"

text \<open>
  Console output of one operation. \<open>open_line\<close> is the text printed since the last
  \<open>println\<close>; \<open>extends\<close> says the later world only added events; \<open>quiet\<close> that none of
  the added events writes to the console. \<open>parse\<close> is the sketch's parser on the trimmed
  line, \<open>routed\<close> says the line reaches a device, \<open>device_reply\<close> is what that device's
  \<open>processCommand\<close> returns, and \<open>runs_pump_init\<close> that the serial sketch hands the line
  to a pump as its \<open>INIT\<close>.
\<close>

fun open_line :: "string \<Rightarrow> Event list \<Rightarrow> string" where
  "open_line cur [] = cur"
| "open_line cur (Serial_print s # es) = open_line (cur @ s) es"
| "open_line cur (Serial_println s # es) = open_line [] es"
| "open_line cur (e # es) = open_line cur es"

definition extends :: "World \<Rightarrow> World \<Rightarrow> bool" where
  "extends w w' = (take (length (events w)) (events w') = events w)"

definition quiet :: "World \<Rightarrow> World \<Rightarrow> bool" where
  "quiet w w' = (extends w w' \<and> list_all (\<lambda>e. \<not> is_serial e) (new_events w w'))"

fun is_pump :: "DevicePtr \<Rightarrow> bool" where
  "is_pump (Masterflex p) = True"
| "is_pump d = False"

definition runs_pump_init :: "(nat \<Rightarrow> string) \<Rightarrow> DeviceManager \<Rightarrow> string \<Rightarrow> bool" where
  "runs_pump_init junk m line =
     (let parsed = parseCommand junk (trim line) in
      \<not> is_global line \<and> \<not> malformed parsed
      \<and> (case findDevice m (fst parsed) of
            None \<Rightarrow> False
          | Some i \<Rightarrow>
              (case devices m ! i of
                 None \<Rightarrow> False
               | Some d \<Rightarrow> is_pump d \<and> strcasecmp_eq (fst (snd parsed)) ''INIT'')))"

definition parse :: "Sketch \<Rightarrow> (nat \<Rightarrow> string) \<Rightarrow> string \<Rightarrow> string \<times> string \<times> string \<times> string" where
  "parse sk junk line =
     (case sk of SerialSketch \<Rightarrow> parseCommand junk (trim line)
               | EthernetSketch \<Rightarrow> parseCommand_eth junk (trim line))"

definition routed :: "Sketch \<Rightarrow> (nat \<Rightarrow> string) \<Rightarrow> DeviceManager \<Rightarrow> string \<Rightarrow> bool" where
  "routed sk junk m line =
     (\<not> is_global line \<and> \<not> malformed (parse sk junk line)
      \<and> findDevice m (fst (parse sk junk line)) \<noteq> None)"

definition device_reply ::
  "Sketch \<Rightarrow> FloatFmt \<Rightarrow> (nat \<Rightarrow> string) \<Rightarrow> DeviceManager \<Rightarrow> string \<Rightarrow> World
     \<Rightarrow> CommandResult \<times> string \<times> DevicePtr \<times> World" where
  "device_reply sk fl junk m line w =
     (let (deviceId, command, p1, p2) = parse sk junk line in
      Device_processCommand sk fl (the (devices m ! the (findDevice m deviceId)))
        command (Some p1) (Some p2) 256 w)"

definition console_lines :: "World \<Rightarrow> World \<Rightarrow> string list" where
  "console_lines w w' = serial_lines (new_events w w')"

text \<open>
  The join as the loops build it: a separator before every status but the first appended.
\<close>

fun extend_join :: "string \<Rightarrow> string list \<Rightarrow> string" where
  "extend_join J [] = J"
| "extend_join J (s # ss) = extend_join (if J = [] then s else J @ '', '' @ s) ss"

text \<open>
  A line tokenized on \<open>:\<close> as the specification words it: \<open>fields\<close> are the stretches
  between the colons, blank ones included; \<open>present_fields\<close> are the ones that are not
  blank. \<open>cut_eol\<close> is the line up to its first CR or LF, which is all the Ethernet
  sketch's parser looks at.
\<close>

fun fields :: "string \<Rightarrow> string list" where
  "fields [] = [[]]"
| "fields (c # cs) =
     (if c = CHR '':'' then [] # fields cs else (c # hd (fields cs)) # tl (fields cs))"



section \<open>Properties\<close>

subsection \<open>Relay\<close>

lemma lower_relay_kw:
  "map tolower_c ''ON'' = ''on''" "map tolower_c ''OFF'' = ''off''" "map tolower_c ''TOGGLE'' = ''toggle''"
  by (simp_all add: tolower_c_def)

lemma registered_append:
  "length (devices m) = MAX_DEVICES \<Longrightarrow> deviceCount m < MAX_DEVICES \<Longrightarrow>
   registered (m\<lparr>devices := (devices m)[deviceCount m := x], deviceCount := Suc (deviceCount m)\<rparr>)
     = registered m @ [x]"
  by (simp add: registered_def take_Suc_conv_app_nth)

text \<open>
  C9. In any state the relay's \<open>ON\<close> sets its state to on, \<open>OFF\<close> sets it to off and
  \<open>TOGGLE\<close> flips it, each returning \<open>CMD_OK\<close> and driving both pins to the new level
  (the command token is compared without regard to case); any other command returns
  \<open>CMD_ERROR\<close> with the token echoed and changes nothing. Hence \<open>ON\<close>, \<open>OFF\<close>, \<open>TOGGLE\<close>
  from the initialized relay leaves it on, and its status string is \<open><id>:ON\<close>.
\<close>

theorem relay_commands:
  "(strcasecmp_eq command ''ON'' \<longrightarrow>
      RelayDevice_processCommand r command p1 p2 n w =
        (CMD_OK, take (n - 1) (''Relay '' @ dev_id r @ '' ON''), r\<lparr>state := True\<rparr>,
         w\<lparr>events := events w @ [DigitalWrite (pin r) True, DigitalWrite (ledPin r) True]\<rparr>))
   \<and> (strcasecmp_eq command ''OFF'' \<longrightarrow>
      RelayDevice_processCommand r command p1 p2 n w =
        (CMD_OK, take (n - 1) (''Relay '' @ dev_id r @ '' OFF''), r\<lparr>state := False\<rparr>,
         w\<lparr>events := events w @ [DigitalWrite (pin r) False, DigitalWrite (ledPin r) False]\<rparr>))
   \<and> (strcasecmp_eq command ''TOGGLE'' \<longrightarrow>
      RelayDevice_processCommand r command p1 p2 n w =
        (CMD_OK, take (n - 1) (''Relay '' @ dev_id r @ '' '' @ on_off (\<not> state r)),
         r\<lparr>state := \<not> state r\<rparr>,
         w\<lparr>events := events w @ [DigitalWrite (pin r) (\<not> state r),
                                   DigitalWrite (ledPin r) (\<not> state r)]\<rparr>))
   \<and> (\<not> strcasecmp_eq command ''ON'' \<and> \<not> strcasecmp_eq command ''OFF''
        \<and> \<not> strcasecmp_eq command ''TOGGLE'' \<longrightarrow>
      RelayDevice_processCommand r command p1 p2 n w =
        (CMD_ERROR, take (n - 1) (''Unknown relay command: '' @ command), r, w))
   \<and> state (fst (relay_run (fst (snd (RelayDevice_initialize r w))) [''ON'', ''OFF'', ''TOGGLE''] w'))
   \<and> (length (dev_id r) \<le> 11 \<longrightarrow>
        RelayDevice_getStatus
          (fst (relay_run (fst (snd (RelayDevice_initialize r w))) [''ON'', ''OFF'', ''TOGGLE''] w')) 64 w''
        = (True, dev_id r @ '':ON'', w''))"
  by (simp add: RelayDevice_processCommand_def RelayDevice_initialize_def RelayDevice_getStatus_def
        strcasecmp_eq_def lower_relay_kw snprintf_s_def emit_def on_off_def Let_def)

theorem relay_commands_witness:
  "strcasecmp_eq ''on'' ''ON'' \<and> strcasecmp_eq ''Off'' ''OFF'' \<and> strcasecmp_eq ''toggle'' ''TOGGLE''
   \<and> \<not> strcasecmp_eq ''BLINK'' ''ON'' \<and> \<not> strcasecmp_eq ''BLINK'' ''OFF''
   \<and> \<not> strcasecmp_eq ''BLINK'' ''TOGGLE''
   \<and> length (dev_id (RelayDevice_new ''REL_01'' 1)) \<le> 11
   \<and> fst (RelayDevice_processCommand (RelayDevice_new ''REL_01'' 1) ''on'' None None 256 (world0 [])) = CMD_OK
   \<and> state (fst (snd (snd (RelayDevice_processCommand (RelayDevice_new ''REL_01'' 1) ''on'' None None 256 (world0 [])))))
   \<and> \<not> state (fst (snd (snd (RelayDevice_processCommand (RelayDevice_new ''REL_01'' 1) ''Off'' None None 256 (world0 [])))))
   \<and> state (fst (snd (snd (RelayDevice_processCommand (RelayDevice_new ''REL_01'' 1) ''toggle'' None None 256 (world0 [])))))
   \<and> RelayDevice_processCommand (RelayDevice_new ''REL_01'' 1) ''BLINK'' None None 256 (world0 [])
       = (CMD_ERROR, ''Unknown relay command: BLINK'', RelayDevice_new ''REL_01'' 1, world0 [])
   \<and> RelayDevice_getStatus
        (fst (relay_run (fst (snd (RelayDevice_initialize (RelayDevice_new ''REL_01'' 1) (world0 []))))
               [''ON'', ''OFF'', ''TOGGLE''] (world0 []))) 64 (world0 [])
      = (True, ''REL_01:ON'', world0 [])"
  using relay_commands [of "''on''" "RelayDevice_new ''REL_01'' 1" None None 256 "world0 []" "world0 []" "world0 []"]
        relay_commands [of "''Off''" "RelayDevice_new ''REL_01'' 1" None None 256 "world0 []" "world0 []" "world0 []"]
        relay_commands [of "''toggle''" "RelayDevice_new ''REL_01'' 1" None None 256 "world0 []" "world0 []" "world0 []"]
        relay_commands [of "''BLINK''" "RelayDevice_new ''REL_01'' 1" None None 256 "world0 []" "world0 []" "world0 []"]
  by (simp add: strcasecmp_eq_def tolower_c_def RelayDevice_new_def)

text \<open>
  C10. The relay's \<open>initialize()\<close> always succeeds: it makes both pins outputs, drives the
  output pin and the indicator pin low, resets the stored state to off and sets \<open>enabled\<close>;
  so a relay that has just been registered reports \<open><id>:OFF\<close>.
\<close>

theorem relay_initialize_forces_off:
  "RelayDevice_initialize r w =
     (True, r\<lparr>enabled := True, state := False\<rparr>,
      w\<lparr>events := events w @ [PinMode_OUTPUT (pin r), PinMode_OUTPUT (ledPin r),
                                DigitalWrite (pin r) False, DigitalWrite (ledPin r) False]\<rparr>)
   \<and> RelayDevice_getStatus (fst (snd (RelayDevice_initialize r w))) 64 w'
       = (True, take 63 (dev_id r @ '':OFF''), w')
   \<and> (deviceCount m < MAX_DEVICES \<and> length (devices m) = MAX_DEVICES \<and> length (dev_id r) \<le> 11 \<longrightarrow>
        fst (addDevice sk m (Relay r) w)
        \<and> registered (fst (snd (addDevice sk m (Relay r) w)))
            = registered m @ [Some (Relay (r\<lparr>enabled := True, state := False\<rparr>))]
        \<and> (\<forall>w2. Device_getStatus sk (the (last (registered (fst (snd (addDevice sk m (Relay r) w)))))) 64 w2
                   = (True, dev_id r @ '':OFF'', w2)))"
  by (auto simp add: RelayDevice_initialize_def RelayDevice_getStatus_def emit_def snprintf_s_def on_off_def
        addDevice_def registered_append)

theorem relay_initialize_forces_off_witness:
  "(deviceCount DeviceManager_new < MAX_DEVICES \<and> length (devices DeviceManager_new) = MAX_DEVICES
    \<and> length (dev_id (RelayDevice_new ''REL_01'' 1)) \<le> 11)
   \<and> fst (addDevice SerialSketch DeviceManager_new (Relay (RelayDevice_new ''REL_01'' 1)) (world0 []))
   \<and> Device_getStatus SerialSketch
        (the (last (registered (fst (snd (addDevice SerialSketch DeviceManager_new
                (Relay (RelayDevice_new ''REL_01'' 1)) (world0 []))))))) 64 (world0 [])
      = (True, ''REL_01:OFF'', world0 [])"
proof -
  let ?r = "RelayDevice_new ''REL_01'' 1"
  have room: "deviceCount DeviceManager_new < MAX_DEVICES \<and> length (devices DeviceManager_new) = MAX_DEVICES
              \<and> length (dev_id ?r) \<le> 11"
    by (simp add: DeviceManager_new_def MAX_DEVICES_def RelayDevice_new_def)
  have after: "fst (addDevice SerialSketch DeviceManager_new (Relay ?r) (world0 []))
               \<and> (\<forall>w2. Device_getStatus SerialSketch
                     (the (last (registered (fst (snd (addDevice SerialSketch DeviceManager_new
                        (Relay ?r) (world0 []))))))) 64 w2
                   = (True, dev_id ?r @ '':OFF'', w2))"
    using relay_initialize_forces_off [of ?r "world0 []" "world0 []" DeviceManager_new SerialSketch] room
    by blast
  have name: "dev_id ?r @ '':OFF'' = ''REL_01:OFF''"
    by (simp add: RelayDevice_new_def)
  from room after name show ?thesis by simp
qed

subsection \<open>Device manager\<close>


text \<open>
  C7. With \<open>MAX_DEVICES\<close> (16) devices registered, \<open>addDevice\<close> returns false and leaves the
  manager (count, entries and so their identifiers) and the hardware as they were; with
  room left it appends the device and returns what its \<open>initialize()\<close> returned.
\<close>

theorem addDevice_capacity:
  "(deviceCount m \<ge> MAX_DEVICES \<longrightarrow> addDevice sk m d w = (False, m, w))
   \<and> (deviceCount m < MAX_DEVICES \<and> length (devices m) = MAX_DEVICES \<longrightarrow>
        fst (addDevice sk m d w) = fst (Device_initialize sk d w)
        \<and> snd (snd (addDevice sk m d w)) = snd (snd (Device_initialize sk d w))
        \<and> deviceCount (fst (snd (addDevice sk m d w))) = deviceCount m + 1
        \<and> length (devices (fst (snd (addDevice sk m d w)))) = MAX_DEVICES
        \<and> registered (fst (snd (addDevice sk m d w)))
            = registered m @ [Some (fst (snd (Device_initialize sk d w)))])"
  by (simp add: addDevice_def registered_append split: prod.splits)

lemma full_registry_count: "deviceCount (full_registry sk) = 16"
  by (cases sk) (simp_all add: full_registry_def sixteen_devices_def setup_devices_def addDevice_def
       DeviceManager_new_def MAX_DEVICES_def Let_def RelayDevice_initialize_def ViciDevice_initialize_def
       MasterflexDevice_initialize_def MasterflexDevice_initialize_eth_def)

theorem addDevice_capacity_witness:
  "(deviceCount (full_registry SerialSketch) \<ge> MAX_DEVICES
    \<and> addDevice SerialSketch (full_registry SerialSketch) (Relay (RelayDevice_new ''REL_17'' 1)) (world0 [])
        = (False, full_registry SerialSketch, world0 []))
   \<and> (deviceCount DeviceManager_new < MAX_DEVICES \<and> length (devices DeviceManager_new) = MAX_DEVICES)
   \<and> fst (addDevice SerialSketch DeviceManager_new (Relay (RelayDevice_new ''REL_01'' 1)) (world0 []))
   \<and> registered (fst (snd (addDevice SerialSketch DeviceManager_new (Relay (RelayDevice_new ''REL_01'' 1)) (world0 []))))
       = [Some (Relay ((RelayDevice_new ''REL_01'' 1)\<lparr>enabled := True, state := False\<rparr>))]"
proof -
  let ?d = "Relay (RelayDevice_new ''REL_01'' 1)"
  have full: "deviceCount (full_registry SerialSketch) \<ge> MAX_DEVICES"
    by (simp add: full_registry_count MAX_DEVICES_def)
  have room: "deviceCount DeviceManager_new < MAX_DEVICES \<and> length (devices DeviceManager_new) = MAX_DEVICES"
    by (simp add: DeviceManager_new_def MAX_DEVICES_def)
  have refused: "addDevice SerialSketch (full_registry SerialSketch)
                   (Relay (RelayDevice_new ''REL_17'' 1)) (world0 [])
                 = (False, full_registry SerialSketch, world0 [])"
    using addDevice_capacity [of "full_registry SerialSketch" SerialSketch
            "Relay (RelayDevice_new ''REL_17'' 1)" "world0 []"] full
    by blast
  have added: "fst (addDevice SerialSketch DeviceManager_new ?d (world0 []))
                 = fst (Device_initialize SerialSketch ?d (world0 []))
               \<and> registered (fst (snd (addDevice SerialSketch DeviceManager_new ?d (world0 []))))
                 = registered DeviceManager_new
                   @ [Some (fst (snd (Device_initialize SerialSketch ?d (world0 []))))]"
    using addDevice_capacity [of DeviceManager_new SerialSketch ?d "world0 []"] room
    by blast
  have empty: "registered DeviceManager_new = []"
    by (simp add: registered_def DeviceManager_new_def)
  from added empty
  have ok: "fst (addDevice SerialSketch DeviceManager_new ?d (world0 []))"
    and reg: "registered (fst (snd (addDevice SerialSketch DeviceManager_new ?d (world0 []))))
              = [Some (Relay ((RelayDevice_new ''REL_01'' 1)\<lparr>enabled := True, state := False\<rparr>))]"
    by (simp_all add: RelayDevice_initialize_def)
  from full refused room ok reg show ?thesis by blast
qed

subsection \<open>Pump response reader\<close>

lemma store_take:
  "length buf < maxLen \<Longrightarrow> store maxLen buf bs = buf @ take (maxLen - 1 - length buf) bs"
proof (induction bs arbitrary: buf)
  case Nil
  then show ?case by simp
next
  case (Cons b bs)
  show ?case
  proof (cases "length buf + 1 < maxLen")
    case True
    then have room: "maxLen - 1 - length buf = Suc (maxLen - 1 - length (buf @ [b]))" by simp
    from True have "store maxLen buf (b # bs) = store maxLen (buf @ [b]) bs" by simp
    also have "\<dots> = (buf @ [b]) @ take (maxLen - 1 - length (buf @ [b])) bs"
      using True by (intro Cons.IH) simp
    also have "\<dots> = buf @ take (maxLen - 1 - length buf) (b # bs)"
      unfolding room by simp
    finally show ?thesis .
  next
    case False
    with Cons.prems have eq: "maxLen - 1 - length buf = 0" by simp
    from False have "store maxLen buf (b # bs) = store maxLen buf bs" by simp
    also have "\<dots> = buf @ take (maxLen - 1 - length buf) bs" using Cons.prems by (rule Cons.IH)
    finally show ?thesis using eq by simp
  qed
qed

lemma store_empty: "0 < maxLen \<Longrightarrow> store maxLen [] bs = take (maxLen - 1) bs"
  using store_take [of "[]" maxLen bs] by simp

lemma take_nonempty: "2 \<le> n \<Longrightarrow> (0 < length (take (n - 1) xs)) = (xs \<noteq> [])"
  by (cases xs) auto

lemma serial_loop_char:
  "readMasterflexResponse_loop maxLen buf bytes =
     (case first_stop bytes of
        None \<Rightarrow> (if 0 < length (store maxLen buf (payload bytes)) then RESP_LINE else RESP_NONE)
      | Some b \<Rightarrow> if b = ACK then RESP_ACK else if b = NAK then RESP_NAK
                  else if 0 < length (store maxLen buf (payload bytes)) then RESP_LINE else RESP_NONE,
      store maxLen buf (payload bytes))"
proof (induction bytes arbitrary: buf)
  case Nil
  show ?case by (simp add: first_stop_def payload_def)
next
  case (Cons b bs)
  show ?case
  proof (cases "stop_byte b")
    case True
    then show ?thesis by (auto simp: first_stop_def payload_def stop_byte_def)
  next
    case False
    then have nb: "b \<noteq> ACK" "b \<noteq> NAK" "b \<noteq> CR" by (auto simp: stop_byte_def)
    define buf' where "buf' = (if length buf + 1 < maxLen then buf @ [b] else buf)"
    have fs: "first_stop (b # bs) = first_stop bs" using False by (simp add: first_stop_def)
    have pl: "payload (b # bs) = b # payload bs" using False by (simp add: payload_def)
    have step: "readMasterflexResponse_loop maxLen buf (b # bs) = readMasterflexResponse_loop maxLen buf' bs"
      using nb by (simp add: buf'_def)
    have st: "store maxLen buf (b # payload bs) = store maxLen buf' (payload bs)"
      by (simp add: buf'_def)
    show ?thesis unfolding fs pl step st by (rule Cons.IH)
  qed
qed

lemma eth_loop_char:
  "readMasterflexResponse_loop_eth maxLen buf bytes =
     (case first_stop bytes of
        None \<Rightarrow> (RESP_NONE, store maxLen buf (filter (\<lambda>b. b \<noteq> LF) (payload bytes)))
      | Some b \<Rightarrow> if b = ACK then (RESP_ACK, []) else if b = NAK then (RESP_NAK, [])
                  else (if 0 < length (store maxLen buf (filter (\<lambda>b. b \<noteq> LF) (payload bytes)))
                        then RESP_LINE else RESP_NONE,
                        store maxLen buf (filter (\<lambda>b. b \<noteq> LF) (payload bytes))))"
proof (induction bytes arbitrary: buf)
  case Nil
  show ?case by (simp add: first_stop_def payload_def)
next
  case (Cons b bs)
  show ?case
  proof (cases "stop_byte b")
    case True
    then show ?thesis by (auto simp: first_stop_def payload_def stop_byte_def)
  next
    case False
    then have nb: "b \<noteq> ACK" "b \<noteq> NAK" "b \<noteq> CR" by (auto simp: stop_byte_def)
    have fs: "first_stop (b # bs) = first_stop bs" using False by (simp add: first_stop_def)
    have pl: "payload (b # bs) = b # payload bs" using False by (simp add: payload_def)
    show ?thesis
    proof (cases "b = LF")
      case True
      have step: "readMasterflexResponse_loop_eth maxLen buf (b # bs)
                    = readMasterflexResponse_loop_eth maxLen buf bs"
        using nb True by simp
      have fl: "filter (\<lambda>b. b \<noteq> LF) (b # payload bs) = filter (\<lambda>b. b \<noteq> LF) (payload bs)"
        using True by simp
      show ?thesis unfolding fs pl step fl by (rule Cons.IH)
    next
      case notLF: False
      define buf' where "buf' = (if length buf + 1 < maxLen then buf @ [b] else buf)"
      have step: "readMasterflexResponse_loop_eth maxLen buf (b # bs)
                    = readMasterflexResponse_loop_eth maxLen buf' bs"
        using nb notLF by (simp add: buf'_def)
      have fl: "filter (\<lambda>b. b \<noteq> LF) (b # payload bs) = b # filter (\<lambda>b. b \<noteq> LF) (payload bs)"
        using notLF by simp
      have st: "\<And>xs. store maxLen buf (b # xs) = store maxLen buf' xs"
        by (simp add: buf'_def)
      show ?thesis unfolding fs pl step fl st by (rule Cons.IH)
    qed
  qed
qed

text \<open>
  C4, as amended. Both readers scan the bytes of the window in order and stop at the first
  0x06, 0x15 or CR. The class is ACK when that byte is 0x06 and NAK when it is 0x15,
  whatever payload came before; on CR it is a data line when at least one payload byte was
  stored and none otherwise. With no such byte before the timeout the serial sketch
  returns a data line when payload bytes were stored and none when nothing arrived; the
  Ethernet sketch, which also drops LF bytes from the payload, returns none. The buffer
  holds the first \<open>maxLen - 1\<close> payload bytes.
\<close>

theorem pump_reader_classification:
  "2 \<le> maxLen \<longrightarrow>
     readMasterflexResponse_loop maxLen [] bytes =
       (case first_stop bytes of
          None \<Rightarrow> (if payload bytes = [] then RESP_NONE else RESP_LINE)
        | Some b \<Rightarrow> if b = ACK then RESP_ACK else if b = NAK then RESP_NAK
                    else if payload bytes = [] then RESP_NONE else RESP_LINE,
        take (maxLen - 1) (payload bytes))
   \<and> readMasterflexResponse_loop_eth maxLen [] bytes =
       (case first_stop bytes of
          None \<Rightarrow> (RESP_NONE, take (maxLen - 1) (filter (\<lambda>b. b \<noteq> LF) (payload bytes)))
        | Some b \<Rightarrow> if b = ACK then (RESP_ACK, []) else if b = NAK then (RESP_NAK, [])
                    else (if filter (\<lambda>b. b \<noteq> LF) (payload bytes) = [] then RESP_NONE else RESP_LINE,
                          take (maxLen - 1) (filter (\<lambda>b. b \<noteq> LF) (payload bytes))))"
proof (intro impI)
  assume m: "2 \<le> maxLen"
  have e: "\<And>xs. store maxLen [] xs = take (maxLen - 1) xs" using m by (simp add: store_empty)
  have n: "\<And>xs::byte list. (0 < length (take (maxLen - 1) xs)) = (xs \<noteq> [])"
    using m by (rule take_nonempty)
  show "readMasterflexResponse_loop maxLen [] bytes =
       (case first_stop bytes of
          None \<Rightarrow> (if payload bytes = [] then RESP_NONE else RESP_LINE)
        | Some b \<Rightarrow> if b = ACK then RESP_ACK else if b = NAK then RESP_NAK
                    else if payload bytes = [] then RESP_NONE else RESP_LINE,
        take (maxLen - 1) (payload bytes))
   \<and> readMasterflexResponse_loop_eth maxLen [] bytes =
       (case first_stop bytes of
          None \<Rightarrow> (RESP_NONE, take (maxLen - 1) (filter (\<lambda>b. b \<noteq> LF) (payload bytes)))
        | Some b \<Rightarrow> if b = ACK then (RESP_ACK, []) else if b = NAK then (RESP_NAK, [])
                    else (if filter (\<lambda>b. b \<noteq> LF) (payload bytes) = [] then RESP_NONE else RESP_LINE,
                          take (maxLen - 1) (filter (\<lambda>b. b \<noteq> LF) (payload bytes))))"
    unfolding serial_loop_char eth_loop_char e n by (auto split: option.splits)
qed

theorem pump_reader_classification_witness:
  "(2::nat) \<le> 96
   \<and> readMasterflexResponse_loop 96 [] (''P?0'' @ [CR]) = (RESP_LINE, ''P?0'')
   \<and> readMasterflexResponse_loop_eth 96 [] (''P?0'' @ [CR]) = (RESP_LINE, ''P?0'')"
proof -
  have m: "(2::nat) \<le> 96" by simp
  have fs: "first_stop (''P?0'' @ [CR]) = Some CR"
    by (simp add: first_stop_def stop_byte_def ACK_def NAK_def CR_def)
  have pl: "payload (''P?0'' @ [CR]) = ''P?0''"
    by (simp add: payload_def stop_byte_def ACK_def NAK_def CR_def)
  have ne: "CR \<noteq> ACK" "CR \<noteq> NAK" by (simp_all add: ACK_def NAK_def CR_def)
  have nl: "filter (\<lambda>b. b \<noteq> LF) ''P?0'' = ''P?0''" by (simp add: LF_def)
  from pump_reader_classification [of 96 "''P?0'' @ [CR]"] m
  have "readMasterflexResponse_loop 96 [] (''P?0'' @ [CR]) = (RESP_LINE, ''P?0'')
        \<and> readMasterflexResponse_loop_eth 96 [] (''P?0'' @ [CR]) = (RESP_LINE, ''P?0'')"
    unfolding fs pl nl using ne by simp
  with m show ?thesis by blast
qed

theorem pump_reader_counterexample:
  "fst (readMasterflexResponse_loop 128 [] [CHR ''A'', ACK]) = RESP_ACK \<and> [CHR ''A'', ACK] \<noteq> [ACK]
   \<and> fst (readMasterflexResponse_loop 128 [] ''AB'') = RESP_LINE \<and> CR \<notin> set ''AB''
   \<and> fst (readMasterflexResponse_loop_eth 128 [] ''AB'') = RESP_NONE \<and> ''AB'' \<noteq> []"
  by (simp add: ACK_def NAK_def CR_def LF_def)

subsection \<open>Valve\<close>

lemma rx_window_eq: "rx_window w = (reply w 0, w\<lparr>rx := tl (rx w)\<rparr>)"
  by (cases "rx w") (simp_all add: rx_window_def reply_def)

lemma readLine_loop_char:
  "readLine_loop mx buf bytes =
     (0 < length (store mx buf (line_payload bytes)), store mx buf (line_payload bytes))"
proof (induction bytes arbitrary: buf)
  case Nil
  show ?case by (simp add: line_payload_def)
next
  case (Cons b bs)
  show ?case
  proof (cases "b = CR")
    case True
    then show ?thesis by (simp add: line_payload_def)
  next
    case notCR: False
    show ?thesis
    proof (cases "b = LF")
      case True
      with notCR show ?thesis using Cons.IH [of buf] by (simp add: line_payload_def)
    next
      case False
      with notCR show ?thesis
        using Cons.IH [of "if length buf + 1 < mx then buf @ [b] else buf"]
        by (simp add: line_payload_def)
    qed
  qed
qed

lemma readLine_eq:
  "2 \<le> mx \<Longrightarrow> readLine mx w = (line_payload (reply w 0) \<noteq> [], take (mx - 1) (line_payload (reply w 0)),
                     w\<lparr>rx := tl (rx w)\<rparr>)"
  by (simp add: readLine_def rx_window_eq readLine_loop_char store_empty take_nonempty)

lemma sendFrame_eq: "sendFrame v core (setupViciRS485 w) = vici_sent v core w"
  by (simp add: sendFrame_def setupViciRS485_def emit_def vici_sent_def snprintf_s_def)

lemma sendCommand_None: "sendCommand v core None w = (True, [], vici_sent v core w)"
  by (simp add: sendCommand_def sendFrame_eq)

lemma sendCommand_Some:
  "2 \<le> mx \<Longrightarrow> sendCommand v core (Some mx) w =
     (line_payload (reply w 0) \<noteq> [], take (mx - 1) (line_payload (reply w 0)),
      (vici_sent v core w)\<lparr>rx := tl (rx w)\<rparr>)"
  by (simp add: sendCommand_def sendFrame_eq readLine_eq vici_sent_def reply_def)

text \<open>
  C8. The valve's motion commands \<open>GOTO\<close> (with a position), \<open>TOGGLE\<close>, \<open>HOME\<close>, \<open>CW\<close> and
  \<open>CCW\<close> reconfigure the bus, transmit their frame and return \<open>CMD_OK\<close> without reading
  anything from the bus (the pending replies are untouched). \<open>POSITION\<close> and \<open>STATUS\<close>
  transmit \<open>CP\<close> and \<open>STAT\<close>, read one window, and return \<open>CMD_DATA\<close> carrying the payload
  received when the window holds at least one payload byte before its first CR, and
  \<open>CMD_ERROR\<close> when it holds none (in particular when the bus stays silent).
\<close>

theorem vici_commands:
  "(strcasecmp_eq command ''GOTO'' \<longrightarrow>
      ViciDevice_processCommand v command (Some pos) p2 n w =
        (CMD_OK, take (n - 1) (''VICI '' @ dev_id v @ '' moved to '' @ pos), v,
         vici_sent v (take 15 (''GO'' @ pos)) w))
   \<and> (strcasecmp_eq command ''TOGGLE'' \<longrightarrow>
      ViciDevice_processCommand v command p1 p2 n w =
        (CMD_OK, take (n - 1) (''VICI '' @ dev_id v @ '' toggled''), v, vici_sent v ''TO'' w))
   \<and> (strcasecmp_eq command ''HOME'' \<longrightarrow>
      ViciDevice_processCommand v command p1 p2 n w =
        (CMD_OK, take (n - 1) (''VICI '' @ dev_id v @ '' homed''), v, vici_sent v ''HM'' w))
   \<and> (strcasecmp_eq command ''CW'' \<longrightarrow>
      ViciDevice_processCommand v command p1 p2 n w =
        (CMD_OK, take (n - 1) (''VICI '' @ dev_id v @ '' moved CW''), v, vici_sent v ''CW'' w))
   \<and> (strcasecmp_eq command ''CCW'' \<longrightarrow>
      ViciDevice_processCommand v command p1 p2 n w =
        (CMD_OK, take (n - 1) (''VICI '' @ dev_id v @ '' moved CCW''), v, vici_sent v ''CC'' w))
   \<and> (strcasecmp_eq command ''POSITION'' \<longrightarrow>
      ViciDevice_processCommand v command p1 p2 n w =
        (if line_payload (reply w 0) \<noteq> [] then
           (CMD_DATA, take (n - 1) (''VICI '' @ dev_id v @ '' position: ''
                                      @ cstr (take 127 (line_payload (reply w 0)))), v,
            (vici_sent v ''CP'' w)\<lparr>rx := tl (rx w)\<rparr>)
         else
           (CMD_ERROR, take (n - 1) (''VICI command failed or unknown: '' @ command), v,
            (vici_sent v ''CP'' w)\<lparr>rx := tl (rx w)\<rparr>)))
   \<and> (strcasecmp_eq command ''STATUS'' \<longrightarrow>
      ViciDevice_processCommand v command p1 p2 n w =
        (if line_payload (reply w 0) \<noteq> [] then
           (CMD_DATA, take (n - 1) (''VICI '' @ dev_id v @ '' status: ''
                                      @ cstr (take 127 (line_payload (reply w 0)))), v,
            (vici_sent v ''STAT'' w)\<lparr>rx := tl (rx w)\<rparr>)
         else
           (CMD_ERROR, take (n - 1) (''VICI command failed or unknown: '' @ command), v,
            (vici_sent v ''STAT'' w)\<lparr>rx := tl (rx w)\<rparr>)))"
  by (simp add: ViciDevice_processCommand_def strcasecmp_eq_def tolower_c_def sendCommand_None
        sendCommand_Some snprintf_s_def Let_def)

theorem vici_commands_witness:
  "(strcasecmp_eq ''goto'' ''GOTO'' \<and> strcasecmp_eq ''TOGGLE'' ''TOGGLE'' \<and> strcasecmp_eq ''HOME'' ''HOME''
    \<and> strcasecmp_eq ''CW'' ''CW'' \<and> strcasecmp_eq ''CCW'' ''CCW''
    \<and> strcasecmp_eq ''Position'' ''POSITION'' \<and> strcasecmp_eq ''STATUS'' ''STATUS'')
   \<and> ViciDevice_processCommand (ViciDevice_new ''VICI_01'' (CHR ''3'')) ''goto'' (Some ''B'') (Some []) 256 (world0 [])
       = (CMD_OK, ''VICI VICI_01 moved to B'', ViciDevice_new ''VICI_01'' (CHR ''3''),
          \<lparr>events = [RS485_begin 9600 SERIAL_8N1, RS485_write (''/3GOB'' @ [CR])], rx = []\<rparr>)
   \<and> fst (ViciDevice_processCommand (ViciDevice_new ''VICI_01'' (CHR ''3'')) ''TOGGLE'' (Some []) (Some []) 256 (world0 [])) = CMD_OK
   \<and> fst (ViciDevice_processCommand (ViciDevice_new ''VICI_01'' (CHR ''3'')) ''HOME'' (Some []) (Some []) 256 (world0 [])) = CMD_OK
   \<and> fst (ViciDevice_processCommand (ViciDevice_new ''VICI_01'' (CHR ''3'')) ''CW'' (Some []) (Some []) 256 (world0 [])) = CMD_OK
   \<and> fst (ViciDevice_processCommand (ViciDevice_new ''VICI_01'' (CHR ''3'')) ''CCW'' (Some []) (Some []) 256 (world0 [])) = CMD_OK
   \<and> ViciDevice_processCommand (ViciDevice_new ''VICI_01'' (CHR ''3'')) ''Position'' (Some []) (Some []) 256
         (world0 [''B'' @ [CR]])
       = (CMD_DATA, ''VICI VICI_01 position: B'', ViciDevice_new ''VICI_01'' (CHR ''3''),
          \<lparr>events = [RS485_begin 9600 SERIAL_8N1, RS485_write (''/3CP'' @ [CR])], rx = []\<rparr>)
   \<and> fst (ViciDevice_processCommand (ViciDevice_new ''VICI_01'' (CHR ''3'')) ''STATUS'' (Some []) (Some []) 256 (world0 []))
       = CMD_ERROR"
proof -
  let ?v = "ViciDevice_new ''VICI_01'' (CHR ''3'')"
  have kw: "strcasecmp_eq ''goto'' ''GOTO'' \<and> strcasecmp_eq ''TOGGLE'' ''TOGGLE'' \<and> strcasecmp_eq ''HOME'' ''HOME''
    \<and> strcasecmp_eq ''CW'' ''CW'' \<and> strcasecmp_eq ''CCW'' ''CCW''
    \<and> strcasecmp_eq ''Position'' ''POSITION'' \<and> strcasecmp_eq ''STATUS'' ''STATUS''"
    by (simp add: strcasecmp_eq_def tolower_c_def)
  have goto: "ViciDevice_processCommand ?v ''goto'' (Some ''B'') (Some []) 256 (world0 [])
       = (CMD_OK, take (256 - 1) (''VICI '' @ dev_id ?v @ '' moved to '' @ ''B''), ?v,
          vici_sent ?v (take 15 (''GO'' @ ''B'')) (world0 []))"
    using vici_commands [where command = "''goto''" and v = ?v and pos = "''B''" and ?p2.0 = "Some []"
            and n = 256 and w = "world0 []"] kw
    by blast
  have toggle: "ViciDevice_processCommand ?v ''TOGGLE'' (Some []) (Some []) 256 (world0 [])
       = (CMD_OK, take (256 - 1) (''VICI '' @ dev_id ?v @ '' toggled''), ?v, vici_sent ?v ''TO'' (world0 []))"
    using vici_commands [where command = "''TOGGLE''" and v = ?v and ?p1.0 = "Some []" and ?p2.0 = "Some []"
            and n = 256 and w = "world0 []"] kw
    by blast
  have home: "ViciDevice_processCommand ?v ''HOME'' (Some []) (Some []) 256 (world0 [])
       = (CMD_OK, take (256 - 1) (''VICI '' @ dev_id ?v @ '' homed''), ?v, vici_sent ?v ''HM'' (world0 []))"
    using vici_commands [where command = "''HOME''" and v = ?v and ?p1.0 = "Some []" and ?p2.0 = "Some []"
            and n = 256 and w = "world0 []"] kw
    by blast
  have cw: "ViciDevice_processCommand ?v ''CW'' (Some []) (Some []) 256 (world0 [])
       = (CMD_OK, take (256 - 1) (''VICI '' @ dev_id ?v @ '' moved CW''), ?v, vici_sent ?v ''CW'' (world0 []))"
    using vici_commands [where command = "''CW''" and v = ?v and ?p1.0 = "Some []" and ?p2.0 = "Some []"
            and n = 256 and w = "world0 []"] kw
    by blast
  have ccw: "ViciDevice_processCommand ?v ''CCW'' (Some []) (Some []) 256 (world0 [])
       = (CMD_OK, take (256 - 1) (''VICI '' @ dev_id ?v @ '' moved CCW''), ?v, vici_sent ?v ''CC'' (world0 []))"
    using vici_commands [where command = "''CCW''" and v = ?v and ?p1.0 = "Some []" and ?p2.0 = "Some []"
            and n = 256 and w = "world0 []"] kw
    by blast
  have position: "ViciDevice_processCommand ?v ''Position'' (Some []) (Some []) 256 (world0 [''B'' @ [CR]])
       = (if line_payload (reply (world0 [''B'' @ [CR]]) 0) \<noteq> [] then
           (CMD_DATA, take (256 - 1) (''VICI '' @ dev_id ?v @ '' position: ''
                                      @ cstr (take 127 (line_payload (reply (world0 [''B'' @ [CR]]) 0)))), ?v,
            (vici_sent ?v ''CP'' (world0 [''B'' @ [CR]]))\<lparr>rx := tl (rx (world0 [''B'' @ [CR]]))\<rparr>)
         else
           (CMD_ERROR, take (256 - 1) (''VICI command failed or unknown: '' @ ''Position''), ?v,
            (vici_sent ?v ''CP'' (world0 [''B'' @ [CR]]))\<lparr>rx := tl (rx (world0 [''B'' @ [CR]]))\<rparr>))"
    using vici_commands [where command = "''Position''" and v = ?v and ?p1.0 = "Some []" and ?p2.0 = "Some []"
            and n = 256 and w = "world0 [''B'' @ [CR]]"] kw
    by blast
  have status: "ViciDevice_processCommand ?v ''STATUS'' (Some []) (Some []) 256 (world0 [])
       = (if line_payload (reply (world0 []) 0) \<noteq> [] then
           (CMD_DATA, take (256 - 1) (''VICI '' @ dev_id ?v @ '' status: ''
                                      @ cstr (take 127 (line_payload (reply (world0 []) 0)))), ?v,
            (vici_sent ?v ''STAT'' (world0 []))\<lparr>rx := tl (rx (world0 []))\<rparr>)
         else
           (CMD_ERROR, take (256 - 1) (''VICI command failed or unknown: '' @ ''STATUS''), ?v,
            (vici_sent ?v ''STAT'' (world0 []))\<lparr>rx := tl (rx (world0 []))\<rparr>))"
    using vici_commands [where command = "''STATUS''" and v = ?v and ?p1.0 = "Some []" and ?p2.0 = "Some []"
            and n = 256 and w = "world0 []"] kw
    by blast
  have ev: "line_payload (reply (world0 [''B'' @ [CR]]) 0) = ''B''" "line_payload (reply (world0 []) 0) = []"
    by (simp_all add: line_payload_def reply_def world0_def CR_def LF_def)
  show ?thesis
    unfolding goto toggle home cw ccw position status ev
    using kw by (simp add: vici_sent_def ViciDevice_new_def world0_def cstr_def NUL_def)
qed

subsection \<open>Pump commands\<close>

lemma rx_emit [simp]: "rx (emit es w) = rx w"
  by (simp add: emit_def)

lemma events_emit [simp]: "events (emit es w) = events w @ es"
  by (simp add: emit_def)

lemma reply_emit [simp]: "reply (emit es w) k = reply w k"
  by (simp add: reply_def)

lemma reply_tl [simp]: "reply (v\<lparr>rx := tl (rx w)\<rparr>) k = reply w (Suc k)"
  by (cases "rx w") (simp_all add: reply_def)

lemma readMasterflexResponse_eq:
  "readMasterflexResponse maxLen w =
     (fst (readMasterflexResponse_loop maxLen [] (reply w 0)),
      snd (readMasterflexResponse_loop maxLen [] (reply w 0)), w\<lparr>rx := tl (rx w)\<rparr>)"
  by (simp add: readMasterflexResponse_def rx_window_eq split: prod.splits)

lemma readMasterflexResponse_eth_eq:
  "readMasterflexResponse_eth maxLen w =
     (fst (readMasterflexResponse_loop_eth maxLen [] (reply w 0)),
      snd (readMasterflexResponse_loop_eth maxLen [] (reply w 0)), w\<lparr>rx := tl (rx w)\<rparr>)"
  by (simp add: readMasterflexResponse_eth_def rx_window_eq split: prod.splits)

lemma initializePump_result:
  "fst (initializePump p w) = handshake_ok w
   \<and> fst (snd (initializePump p w)) = (if handshake_ok w then p\<lparr>initialized := True\<rparr> else p)"
  by (simp add: initializePump_def readMasterflexResponse_eq handshake_ok_def Let_def
        setupMasterflexRS485_def split: prod.splits)

lemma processCommand_INIT:
  "strcasecmp_eq command ''INIT'' \<Longrightarrow>
   fst (MasterflexDevice_processCommand fl p command p1 p2 n w)
     = (if handshake_ok w then CMD_OK else CMD_ERROR)
   \<and> fst (snd (snd (MasterflexDevice_processCommand fl p command p1 p2 n w)))
     = (if handshake_ok w then p\<lparr>initialized := True\<rparr> else p)"
  using initializePump_result [of p w]
  by (auto simp add: MasterflexDevice_processCommand_def Let_def split: prod.splits)

lemma processCommand_eth_INIT:
  "strcasecmp_eq command ''INIT'' \<Longrightarrow>
   fst (MasterflexDevice_processCommand_eth fl p command p1 p2 n w)
     = (if handshake_ok_eth w then CMD_OK else CMD_ERROR)
   \<and> fst (snd (snd (MasterflexDevice_processCommand_eth fl p command p1 p2 n w)))
     = (if handshake_ok_eth w then p\<lparr>initialized := True\<rparr> else p)"
  by (simp add: MasterflexDevice_processCommand_eth_def transact_eth_def readMasterflexResponse_eth_eq
        handshake_ok_eth_def Let_def setupMasterflexRS485_def sendMasterflexFrame_def
        split: prod.splits)

text \<open>
  C2, as amended. \<open>INIT\<close> returns \<open>CMD_OK\<close> and sets \<open>initialized\<close> exactly when the reply to
  ENQ classifies as a data line holding the marker \<open>P?\<close> (the serial sketch accepts it
  anywhere in the line, the Ethernet sketch only at its start) and the reply to the
  address-assignment frame classifies as ACK; under any other replies it returns
  \<open>CMD_ERROR\<close> and the pump object is unchanged.
\<close>

theorem pump_init_handshake:
  "strcasecmp_eq command ''INIT'' \<longrightarrow>
     fst (MasterflexDevice_processCommand fl p command p1 p2 n w)
       = (if handshake_ok w then CMD_OK else CMD_ERROR)
     \<and> fst (snd (snd (MasterflexDevice_processCommand fl p command p1 p2 n w)))
       = (if handshake_ok w then p\<lparr>initialized := True\<rparr> else p)
     \<and> fst (MasterflexDevice_processCommand_eth fl p command p1 p2 n w)
       = (if handshake_ok_eth w then CMD_OK else CMD_ERROR)
     \<and> fst (snd (snd (MasterflexDevice_processCommand_eth fl p command p1 p2 n w)))
       = (if handshake_ok_eth w then p\<lparr>initialized := True\<rparr> else p)"
  using processCommand_INIT [of command fl p p1 p2 n w] processCommand_eth_INIT [of command fl p p1 p2 n w]
  by blast

lemma handshake_samples:
  "handshake_ok (world0 [''P?0'' @ [CR], [ACK]])" "\<not> handshake_ok (world0 [''P?0'' @ [CR], [NAK]])"
  "handshake_ok_eth (world0 [''P?0'' @ [CR], [ACK]])" "\<not> handshake_ok_eth (world0 [''P?0'' @ [CR]])"
  "handshake_ok (world0 [''XP?0'' @ [CR], [ACK]])"
  by (simp_all add: handshake_ok_def handshake_ok_eth_def reply_def world0_def cstr_def
        ACK_def NAK_def CR_def LF_def NUL_def)

theorem pump_init_handshake_witness:
  "strcasecmp_eq ''init'' ''INIT''
   \<and> fst (MasterflexDevice_processCommand plain_fmt (MasterflexDevice_new ''MFLEX_01'' ''01'') ''init''
            (Some []) (Some []) 256 (world0 [''P?0'' @ [CR], [ACK]])) = CMD_OK
   \<and> initialized (fst (snd (snd (MasterflexDevice_processCommand plain_fmt
            (MasterflexDevice_new ''MFLEX_01'' ''01'') ''init''
            (Some []) (Some []) 256 (world0 [''P?0'' @ [CR], [ACK]])))))
   \<and> fst (MasterflexDevice_processCommand plain_fmt (MasterflexDevice_new ''MFLEX_01'' ''01'') ''init''
            (Some []) (Some []) 256 (world0 [''P?0'' @ [CR], [NAK]])) = CMD_ERROR
   \<and> \<not> initialized (fst (snd (snd (MasterflexDevice_processCommand plain_fmt
            (MasterflexDevice_new ''MFLEX_01'' ''01'') ''init''
            (Some []) (Some []) 256 (world0 [''P?0'' @ [CR], [NAK]])))))
   \<and> fst (MasterflexDevice_processCommand_eth plain_fmt (MasterflexDevice_new ''MFLEX_01'' ''01'') ''init''
            (Some []) (Some []) 256 (world0 [''P?0'' @ [CR], [ACK]])) = CMD_OK
   \<and> fst (MasterflexDevice_processCommand_eth plain_fmt (MasterflexDevice_new ''MFLEX_01'' ''01'') ''init''
            (Some []) (Some []) 256 (world0 [''P?0'' @ [CR]])) = CMD_ERROR"
proof -
  have kw: "strcasecmp_eq ''init'' ''INIT''" by (simp add: strcasecmp_eq_def tolower_c_def)
  have ni: "\<not> initialized (MasterflexDevice_new ''MFLEX_01'' ''01'')"
    by (simp add: MasterflexDevice_new_def)
  show ?thesis
    using kw ni handshake_samples
      pump_init_handshake [of "''init''" plain_fmt "MasterflexDevice_new ''MFLEX_01'' ''01''"
        "Some []" "Some []" 256 "world0 [''P?0'' @ [CR], [ACK]]"]
      pump_init_handshake [of "''init''" plain_fmt "MasterflexDevice_new ''MFLEX_01'' ''01''"
        "Some []" "Some []" 256 "world0 [''P?0'' @ [CR], [NAK]]"]
      pump_init_handshake [of "''init''" plain_fmt "MasterflexDevice_new ''MFLEX_01'' ''01''"
        "Some []" "Some []" 256 "world0 [''P?0'' @ [CR]]"]
    by simp
qed

theorem pump_init_counterexample:
  "readMasterflexResponse_loop 96 [] (''XP?0'' @ [CR]) = (RESP_LINE, ''XP?0'')
   \<and> take 2 ''XP?0'' \<noteq> ''P?''
   \<and> fst (readMasterflexResponse_loop 96 [] [ACK]) = RESP_ACK
   \<and> fst (MasterflexDevice_processCommand plain_fmt (MasterflexDevice_new ''MFLEX_01'' ''01'') ''INIT''
            (Some []) (Some []) 256 (world0 [''XP?0'' @ [CR], [ACK]])) = CMD_OK
   \<and> initialized (fst (snd (snd (MasterflexDevice_processCommand plain_fmt
            (MasterflexDevice_new ''MFLEX_01'' ''01'') ''INIT''
            (Some []) (Some []) 256 (world0 [''XP?0'' @ [CR], [ACK]])))))"
proof -
  have kw: "strcasecmp_eq ''INIT'' ''INIT''" by (simp add: strcasecmp_eq_def)
  have rd: "readMasterflexResponse_loop 96 [] (''XP?0'' @ [CR]) = (RESP_LINE, ''XP?0'')"
       "fst (readMasterflexResponse_loop 96 [] [ACK]) = RESP_ACK"
    by (simp_all add: ACK_def NAK_def CR_def)
  show ?thesis
    using rd handshake_samples(5)
      processCommand_INIT [OF kw, of plain_fmt "MasterflexDevice_new ''MFLEX_01'' ''01''"
        "Some []" "Some []" 256 "world0 [''XP?0'' @ [CR], [ACK]]"]
    by simp
qed

text \<open>The serial sketch refuses every command but \<open>INIT\<close> while the pump is not initialized.\<close>

lemma serial_pump_guard:
  "\<not> initialized p \<Longrightarrow> \<not> strcasecmp_eq command ''INIT'' \<Longrightarrow>
   MasterflexDevice_processCommand fl p command p1 p2 n w =
     (CMD_ERROR, take (n - 1) (''Masterflex '' @ dev_id p @ '' not initialized''), p, w)"
  by (simp add: MasterflexDevice_processCommand_def snprintf_s_def)

text \<open>
  C1. While \<open>initialized\<close> is false every pump command other than \<open>INIT\<close> is to return an
  error and put nothing on the bus. The serial sketch does so (\<open>serial_pump_guard\<close>); the
  Ethernet sketch has no such test: after start-up, \<open>MFLEX_01:START\<close> with a bus that
  answers ACK transmits the frame and returns \<open>OK\<close>.
\<close>

theorem eth_pump_start_uninitialized:
  "\<not> initialized (MasterflexDevice_new ''MFLEX_01'' ''01'')
   \<and> MasterflexDevice_processCommand_eth plain_fmt (MasterflexDevice_new ''MFLEX_01'' ''01'') ''START''
        (Some []) (Some []) 256 (world0 [[ACK]])
      = (CMD_OK, ''Masterflex MFLEX_01 started'', MasterflexDevice_new ''MFLEX_01'' ''01'',
         \<lparr>events = [RS485_begin 4800 SERIAL_7O1, RS485_write ([STX] @ ''P01G'' @ [CR])], rx = []\<rparr>)
   \<and> fst (handleCommandString plain_fmt no_junk (fst (setup_registry EthernetSketch (world0 [])))
            ''MFLEX_01:START'' (world0 [[ACK]]))
      = ''OK: Masterflex MFLEX_01 started''
   \<and> serial_lines (events (snd (processSerialCommand plain_fmt no_junk
            (fst (setup_registry SerialSketch (world0 []))) ''MFLEX_01:START'' (world0 [[ACK]]))))
      = [''ERROR: Masterflex MFLEX_01 not initialized'']"
  by code_simp

subsection \<open>Command lines\<close>





subsection \<open>Responses of the command servers\<close>

lemma extends_new: "extends w w' \<Longrightarrow> events w' = events w @ new_events w w'"
  unfolding extends_def new_events_def by (metis append_take_drop_id)

lemma extendsI: "events w' = events w @ es \<Longrightarrow> extends w w' \<and> new_events w w' = es"
  by (simp add: extends_def new_events_def)

lemma quietI: "events w' = events w @ es \<Longrightarrow> list_all (\<lambda>e. \<not> is_serial e) es \<Longrightarrow> quiet w w'"
  by (simp add: quiet_def extendsI)

lemma quiet_refl: "quiet w w"
  by (simp add: quiet_def extends_def new_events_def)

lemma quiet_trans:
  assumes "quiet w w1" "quiet w1 w2"
  shows "quiet w w2"
proof -
  from assms have e1: "events w1 = events w @ new_events w w1"
    and e2: "events w2 = events w1 @ new_events w1 w2"
    by (simp_all add: quiet_def extends_new)
  then have "events w2 = events w @ (new_events w w1 @ new_events w1 w2)" by simp
  moreover from assms have "list_all (\<lambda>e. \<not> is_serial e) (new_events w w1 @ new_events w1 w2)"
    by (simp add: quiet_def)
  ultimately show ?thesis by (rule quietI)
qed

lemma lines_skip:
  "list_all (\<lambda>e. \<not> is_serial e) a \<Longrightarrow> serial_lines_from cur (a @ b) = serial_lines_from cur b"
proof (induction a)
  case Nil
  then show ?case by simp
next
  case (Cons e a)
  then show ?case by (cases e) simp_all
qed

lemma open_skip:
  "list_all (\<lambda>e. \<not> is_serial e) a \<Longrightarrow> open_line cur (a @ b) = open_line cur b"
proof (induction a)
  case Nil
  then show ?case by simp
next
  case (Cons e a)
  then show ?case by (cases e) simp_all
qed

lemma lines_append:
  "serial_lines_from cur (a @ b) = serial_lines_from cur a @ serial_lines_from (open_line cur a) b"
proof (induction a arbitrary: cur)
  case Nil
  then show ?case by simp
next
  case (Cons e a)
  then show ?case by (cases e) simp_all
qed

lemma quiet_relay: "quiet w (snd (snd (snd (RelayDevice_processCommand r c p1 p2 n w))))"
  by (rule quietI [where es = "new_events w (snd (snd (snd (RelayDevice_processCommand r c p1 p2 n w))))"])
     (simp_all add: RelayDevice_processCommand_def Let_def new_events_def)

lemma quiet_vici_sent: "quiet w (vici_sent v core w)" "quiet w ((vici_sent v core w)\<lparr>rx := r\<rparr>)"
  by (simp_all add: quiet_def extends_def new_events_def vici_sent_def)

lemma quiet_sendCommand: "quiet w (snd (snd (sendCommand v core mx w)))"
proof (cases mx)
  case None
  then show ?thesis by (simp add: sendCommand_None quiet_vici_sent)
next
  case (Some k)
  then show ?thesis
    by (simp add: sendCommand_def sendFrame_eq readLine_def rx_window_eq readLine_loop_char
          Let_def quiet_vici_sent)
qed

lemma quiet_emit:
  assumes "quiet w w1" "list_all (\<lambda>e. \<not> is_serial e) es"
  shows "quiet w (emit es w1)"
proof -
  have "quiet w1 (emit es w1)" using assms(2) by (intro quietI [where es = es]) simp_all
  with assms(1) show ?thesis by (rule quiet_trans)
qed

lemma quiet_rx:
  assumes "quiet w w1"
  shows "quiet w (w1\<lparr>rx := r\<rparr>)"
proof -
  have "quiet w1 (w1\<lparr>rx := r\<rparr>)" by (intro quietI [where es = "[]"]) simp_all
  with assms show ?thesis by (rule quiet_trans)
qed

lemma quiet_vici: "quiet w (snd (snd (snd (ViciDevice_processCommand v c p1 p2 n w))))"
  using quiet_sendCommand [of w v _ None] quiet_sendCommand [of w v _ "Some 128"] quiet_refl [of w]
  by (simp add: ViciDevice_processCommand_def Let_def case_prod_beta)

lemma quiet_vici_status: "quiet w (snd (snd (ViciDevice_getStatus v sz w)))"
  using quiet_sendCommand [of w v "''CP''" "Some 32"]
  by (simp add: ViciDevice_getStatus_def Let_def case_prod_beta)

lemma quiet_transact: "quiet w w1 \<Longrightarrow> quiet w (snd (snd (transact p core w1)))"
  by (simp add: transact_def readMasterflexResponse_eq sendMasterflexFrame_def quiet_emit quiet_rx)

lemma quiet_setup: "quiet w (setupMasterflexRS485 w)"
  by (simp add: setupMasterflexRS485_def quiet_emit quiet_refl)

lemma quiet_pump:
  "\<not> strcasecmp_eq c ''INIT'' \<Longrightarrow>
   quiet w (snd (snd (snd (MasterflexDevice_processCommand fl p c p1 p2 n w))))"
  using quiet_transact [OF quiet_setup, of w p] quiet_setup [of w] quiet_refl [of w]
  by (simp add: MasterflexDevice_processCommand_def Let_def case_prod_beta)

lemma quiet_pump_status: "quiet w (snd (snd (MasterflexDevice_getStatus p sz w)))"
  using quiet_transact [OF quiet_setup, of w p] quiet_refl [of w]
  by (simp add: MasterflexDevice_getStatus_def Let_def case_prod_beta)

lemma quiet_getStatus: "quiet w (snd (snd (Device_getStatus SerialSketch d sz w)))"
  by (cases d) (simp_all add: quiet_vici_status quiet_pump_status RelayDevice_getStatus_def quiet_refl)

lemma quiet_closed: "quiet w w' \<Longrightarrow> extends w w' \<and> open_line [] (new_events w w') = []"
  using open_skip [of "new_events w w'" "[]" "[]"] by (simp add: quiet_def)

lemma initializePump_trace:
  "extends w (snd (snd (initializePump p w)))
   \<and> open_line [] (new_events w (snd (snd (initializePump p w)))) = []"
  by (simp add: initializePump_def readMasterflexResponse_eq extends_def new_events_def Let_def
        case_prod_beta setupMasterflexRS485_def)

lemma pump_trace:
  "extends w (snd (snd (snd (MasterflexDevice_processCommand fl p c p1 p2 n w))))
   \<and> open_line [] (new_events w (snd (snd (snd (MasterflexDevice_processCommand fl p c p1 p2 n w))))) = []"
proof (cases "strcasecmp_eq c ''INIT''")
  case True
  then have "snd (snd (snd (MasterflexDevice_processCommand fl p c p1 p2 n w)))
               = snd (snd (initializePump p w))"
    by (simp add: MasterflexDevice_processCommand_def Let_def case_prod_beta)
  then show ?thesis using initializePump_trace [of w p] by simp
next
  case False
  then show ?thesis by (intro quiet_closed quiet_pump)
qed

lemma device_trace:
  "extends w (snd (snd (snd (Device_processCommand SerialSketch fl d c p1 p2 n w))))
   \<and> open_line [] (new_events w (snd (snd (snd (Device_processCommand SerialSketch fl d c p1 p2 n w))))) = []"
proof (cases d)
  case (Relay r)
  then show ?thesis using quiet_closed [OF quiet_relay, of w r c p1 p2 n] by (simp add: case_prod_beta)
next
  case (Vici v)
  then show ?thesis using quiet_closed [OF quiet_vici, of w v c p1 p2 n] by (simp add: case_prod_beta)
next
  case (Masterflex p)
  then show ?thesis using pump_trace [of w fl p c p1 p2 n] by (simp add: case_prod_beta)
qed

lemma device_quiet:
  "\<not> (\<exists>p. d = Masterflex p \<and> strcasecmp_eq c ''INIT'') \<Longrightarrow>
   quiet w (snd (snd (snd (Device_processCommand SerialSketch fl d c p1 p2 n w))))"
  by (cases d) (simp_all add: case_prod_beta quiet_relay quiet_vici quiet_pump)

lemma quiet_getAllStatus_loop: "quiet w (snd (getAllStatus_loop n ds sb w))"
proof (induction ds arbitrary: sb w)
  case Nil
  show ?case by (simp add: quiet_refl)
next
  case (Cons s ds)
  show ?case
  proof (cases s)
    case None
    then show ?thesis using Cons.IH by simp
  next
    case (Some d)
    show ?thesis
    proof (cases "Device_enabled d")
      case True
      have q: "quiet w (snd (snd (Device_getStatus SerialSketch d 64 w)))" by (rule quiet_getStatus)
      show ?thesis
        using Some True quiet_trans [OF q Cons.IH]
        by (simp add: case_prod_beta Let_def)
    next
      case False
      with Some show ?thesis using Cons.IH by simp
    qed
  qed
qed

lemma quiet_getAllStatus: "quiet w (snd (getAllStatus m n w))"
  by (simp add: getAllStatus_def quiet_getAllStatus_loop)

lemma new_events_emit:
  assumes "extends w w1"
  shows "extends w (emit es w1) \<and> new_events w (emit es w1) = new_events w w1 @ es"
proof -
  from assms have "events (emit es w1) = events w @ (new_events w w1 @ es)"
    by (simp add: extends_new [symmetric])
  then show ?thesis by (rule extendsI)
qed

lemma lines_after_quiet:
  assumes "quiet w w1"
  shows "console_lines w (emit es w1) = serial_lines es"
  using assms new_events_emit [of w w1 es]
  by (simp add: console_lines_def quiet_def serial_lines_def lines_skip)

lemma lines_after_trace:
  assumes "extends w w1" "open_line [] (new_events w w1) = []"
  shows "console_lines w (emit es w1) = console_lines w w1 @ serial_lines es"
  using assms new_events_emit [of w w1 es]
  by (simp add: console_lines_def serial_lines_def lines_append)

lemma findDevice_loop_step:
  assumes "Suc k \<le> i \<and> i - Suc k < length ds
           \<and> (\<exists>d. ds ! (i - Suc k) = Some d \<and> strcasecmp_eq (Device_id d) deviceId)"
  shows "k \<le> i \<and> i - k < length (x # ds)
         \<and> (\<exists>d. (x # ds) ! (i - k) = Some d \<and> strcasecmp_eq (Device_id d) deviceId)"
proof -
  from assms have eq: "i - k = Suc (i - Suc k)" by arith
  from assms show ?thesis unfolding eq by simp
qed

lemma findDevice_loop_Some:
  "findDevice_loop ds deviceId k = Some i \<Longrightarrow>
   k \<le> i \<and> i - k < length ds \<and> (\<exists>d. ds ! (i - k) = Some d \<and> strcasecmp_eq (Device_id d) deviceId)"
proof (induction ds deviceId k rule: findDevice_loop.induct)
  case (1 deviceId i)
  then show ?case by simp
next
  case (2 ds deviceId k)
  then show ?case by (intro findDevice_loop_step) simp
next
  case (3 d ds deviceId k)
  show ?case
  proof (cases "strcasecmp_eq (Device_id d) deviceId")
    case True
    with 3 show ?thesis by simp
  next
    case False
    with 3 show ?thesis by (intro findDevice_loop_step) simp
  qed
qed

lemma findDevice_Some:
  assumes "findDevice m deviceId = Some i"
  shows "\<exists>d. devices m ! i = Some d \<and> strcasecmp_eq (Device_id d) deviceId"
proof -
  from assms findDevice_loop_Some [of "registered m" deviceId 0 i]
  obtain d where i: "i < length (registered m)" and d: "registered m ! i = Some d"
    and n: "strcasecmp_eq (Device_id d) deviceId"
    by (auto simp: findDevice_def)
  from i d have "devices m ! i = Some d" by (simp add: registered_def)
  with n show ?thesis by blast
qed

lemma tagged_prefix: "tagged (result_prefix res @ s)"
  by (cases res) (simp_all add: tagged_def result_prefix_def)

lemma help_not_status: "strcasecmp_eq s ''HELP'' \<Longrightarrow> \<not> strcasecmp_eq s ''STATUS''"
  by (auto simp add: strcasecmp_eq_def tolower_c_def)

lemma serial_response_lines:
  "console_lines w (snd (processSerialCommand fl junk m line w)) =
     (if strcasecmp_eq (trim line) ''STATUS'' then [''DATA: '' @ fst (getAllStatus m 512 w)]
      else if strcasecmp_eq (trim line) ''HELP'' then help_lines
      else if malformed (parse SerialSketch junk line) then [invalid_format]
      else if findDevice m (fst (parse SerialSketch junk line)) = None
           then [''ERROR: Device not found: '' @ fst (parse SerialSketch junk line)]
      else console_lines w (snd (snd (snd (device_reply SerialSketch fl junk m line w))))
           @ [result_prefix (fst (device_reply SerialSketch fl junk m line w))
              @ fst (snd (device_reply SerialSketch fl junk m line w))])"
proof -
  obtain a b c d where p: "parseCommand junk (trim line) = (a, b, c, d)"
    by (cases "parseCommand junk (trim line)") auto
  show ?thesis
  proof (cases "strcasecmp_eq (trim line) ''STATUS''")
    case True
    then show ?thesis
      using lines_after_quiet [OF quiet_getAllStatus [of w m 512]]
      by (simp add: processSerialCommand_def Let_def case_prod_beta serial_lines_def)
  next
    case ns: False
    show ?thesis
    proof (cases "strcasecmp_eq (trim line) ''HELP''")
      case True
      with ns show ?thesis
        using lines_after_quiet [OF quiet_refl [of w], of "map Serial_println help_lines"]
        by (simp add: processSerialCommand_def Let_def serial_lines_def help_lines_def)
    next
      case nh: False
      show ?thesis
      proof (cases "a = [] \<or> b = []")
        case True
        with ns nh p show ?thesis
          using lines_after_quiet [OF quiet_refl [of w], of "[Serial_println invalid_format]"]
          by (simp add: processSerialCommand_def Let_def serial_lines_def parse_def malformed_def)
      next
        case wf: False
        show ?thesis
        proof (cases "findDevice m a")
          case None
          with ns nh p wf show ?thesis
            using lines_after_quiet [OF quiet_refl [of w], of
                    "[Serial_print ''ERROR: Device not found: '', Serial_println a]"]
            by (simp add: processSerialCommand_def Let_def serial_lines_def parse_def malformed_def)
        next
          case (Some i)
          let ?R = "Device_processCommand SerialSketch fl (the (devices m ! i)) b (Some c) (Some d) 256 w"
          have R: "device_reply SerialSketch fl junk m line w = ?R"
            using p Some by (simp add: device_reply_def parse_def)
          have tr: "extends w (snd (snd (snd ?R)))"
                   "open_line [] (new_events w (snd (snd (snd ?R)))) = []"
            using device_trace [of w fl "the (devices m ! i)" b "Some c" "Some d" 256] by simp_all
          have "snd (processSerialCommand fl junk m line w)
                  = emit [Serial_print (result_prefix (fst ?R)), Serial_println (fst (snd ?R))]
                      (snd (snd (snd ?R)))"
            using ns nh p wf Some by (simp add: processSerialCommand_def Let_def case_prod_beta)
          then show ?thesis
            using ns nh p wf Some lines_after_trace [OF tr] 
            by (simp add: R serial_lines_def parse_def malformed_def)
        qed
      qed
    qed
  qed
qed

lemma eth_response:
  "fst (handleCommandString fl junk m line w) =
     (if strcasecmp_eq (trim line) ''STATUS'' then ''DATA: '' @ fst (allStatus m 512 w)
      else if strcasecmp_eq (trim line) ''HELP'' then help_eth
      else if malformed (parse EthernetSketch junk line) then invalid_format
      else if findDevice m (fst (parse EthernetSketch junk line)) = None
           then ''ERROR: Device not found: '' @ fst (parse EthernetSketch junk line)
      else result_prefix (fst (device_reply EthernetSketch fl junk m line w))
           @ fst (snd (device_reply EthernetSketch fl junk m line w)))"
proof -
  obtain a b c d where p: "parseCommand_eth junk (trim line) = (a, b, c, d)"
    by (cases "parseCommand_eth junk (trim line)") auto
  show ?thesis
  proof (cases "findDevice m a")
    case None
    with p show ?thesis
      by (auto simp add: handleCommandString_def Let_def case_prod_beta parse_def malformed_def)
  next
    case (Some i)
    with p show ?thesis
      by (auto simp add: handleCommandString_def Let_def case_prod_beta parse_def malformed_def
            device_reply_def)
  qed
qed

lemma tagged_samples:
  "tagged (CHR ''D'' # CHR ''A'' # CHR ''T'' # CHR ''A'' # CHR '':'' # CHR '' '' # s)"
  "tagged (CHR ''E'' # CHR ''R'' # CHR ''R'' # CHR ''O'' # CHR ''R'' # CHR '':'' # CHR '' '' # s)"
  "tagged help_eth" "tagged invalid_format" "take 7 invalid_format = ''ERROR: ''"
  by (simp_all add: tagged_def help_eth_def invalid_format_def)

lemma quiet_lines: "quiet w w' \<Longrightarrow> console_lines w w' = []"
  using lines_skip [of "new_events w w'" "[]" "[]"]
  by (simp add: console_lines_def quiet_def serial_lines_def)

lemma not_pump_init_quiet:
  assumes "\<not> runs_pump_init junk m line" "routed SerialSketch junk m line"
  shows "quiet w (snd (snd (snd (device_reply SerialSketch fl junk m line w))))"
proof -
  obtain a b c d where p: "parseCommand junk (trim line) = (a, b, c, d)"
    by (cases "parseCommand junk (trim line)") auto
  from assms(2) p obtain i where i: "findDevice m a = Some i"
    by (auto simp: routed_def parse_def)
  then obtain dv where dv: "devices m ! i = Some dv" using findDevice_Some by blast
  from assms p i dv have "\<not> (is_pump dv \<and> strcasecmp_eq b ''INIT'')"
    by (simp add: runs_pump_init_def routed_def parse_def)
  then have "\<not> (\<exists>pm. dv = Masterflex pm \<and> strcasecmp_eq b ''INIT'')" by auto
  from device_quiet [OF this, of w fl "Some c" "Some d" 256] p i dv
  show ?thesis by (simp add: device_reply_def parse_def)
qed

text \<open>
  C3, as amended. The Ethernet sketch answers every line with one string that begins
  \<open>OK: \<close>, \<open>DATA: \<close> or \<open>ERROR: \<close>; for a line routed to a device the tag is the one
  of the device's result, and a malformed line gets \<open>ERROR: \<close>. The serial sketch writes
  the seven lines of its usage text for \<open>HELP\<close> (only the first is tagged); for every other
  line the last line it writes is the tagged response, with the tag of the device's result
  for a routed line and the invalid-format error for a malformed one, and it is the only
  line written unless the line is a pump's \<open>INIT\<close>, whose handshake trace is printed before
  the response.
\<close>

theorem response_lines:
  "tagged (fst (handleCommandString fl junk m line w))
   \<and> (routed EthernetSketch junk m line \<longrightarrow>
        fst (handleCommandString fl junk m line w)
          = result_prefix (fst (device_reply EthernetSketch fl junk m line w))
            @ fst (snd (device_reply EthernetSketch fl junk m line w)))
   \<and> (\<not> is_global line \<and> malformed (parse EthernetSketch junk line) \<longrightarrow>
        take 7 (fst (handleCommandString fl junk m line w)) = ''ERROR: '')
   \<and> (strcasecmp_eq (trim line) ''HELP'' \<longrightarrow>
        console_lines w (snd (processSerialCommand fl junk m line w)) = help_lines)
   \<and> (\<not> strcasecmp_eq (trim line) ''HELP'' \<longrightarrow>
        console_lines w (snd (processSerialCommand fl junk m line w)) \<noteq> []
        \<and> tagged (last (console_lines w (snd (processSerialCommand fl junk m line w)))))
   \<and> (routed SerialSketch junk m line \<longrightarrow>
        last (console_lines w (snd (processSerialCommand fl junk m line w)))
          = result_prefix (fst (device_reply SerialSketch fl junk m line w))
            @ fst (snd (device_reply SerialSketch fl junk m line w)))
   \<and> (\<not> is_global line \<and> malformed (parse SerialSketch junk line) \<longrightarrow>
        console_lines w (snd (processSerialCommand fl junk m line w)) = [invalid_format])
   \<and> (\<not> strcasecmp_eq (trim line) ''HELP'' \<and> \<not> runs_pump_init junk m line \<longrightarrow>
        length (console_lines w (snd (processSerialCommand fl junk m line w))) = 1)"
proof (intro conjI impI)
  show "tagged (fst (handleCommandString fl junk m line w))"
    by (simp add: eth_response tagged_samples tagged_prefix)
  show "fst (handleCommandString fl junk m line w)
          = result_prefix (fst (device_reply EthernetSketch fl junk m line w))
            @ fst (snd (device_reply EthernetSketch fl junk m line w))"
    if "routed EthernetSketch junk m line"
    using that by (auto simp add: eth_response routed_def is_global_def)
  show "take 7 (fst (handleCommandString fl junk m line w)) = ''ERROR: ''"
    if "\<not> is_global line \<and> malformed (parse EthernetSketch junk line)"
    using that by (simp add: eth_response is_global_def tagged_samples)
  show "console_lines w (snd (processSerialCommand fl junk m line w)) = help_lines"
    if "strcasecmp_eq (trim line) ''HELP''"
    using that help_not_status [OF that] by (simp add: serial_response_lines)
  show "console_lines w (snd (processSerialCommand fl junk m line w)) \<noteq> []"
    if "\<not> strcasecmp_eq (trim line) ''HELP''"
    using that by (simp add: serial_response_lines)
  show "tagged (last (console_lines w (snd (processSerialCommand fl junk m line w))))"
    if "\<not> strcasecmp_eq (trim line) ''HELP''"
    using that by (simp add: serial_response_lines tagged_samples tagged_prefix)
  show "last (console_lines w (snd (processSerialCommand fl junk m line w)))
          = result_prefix (fst (device_reply SerialSketch fl junk m line w))
            @ fst (snd (device_reply SerialSketch fl junk m line w))"
    if "routed SerialSketch junk m line"
    using that by (auto simp add: serial_response_lines routed_def is_global_def)
  show "console_lines w (snd (processSerialCommand fl junk m line w)) = [invalid_format]"
    if "\<not> is_global line \<and> malformed (parse SerialSketch junk line)"
    using that by (simp add: serial_response_lines is_global_def)
  show "length (console_lines w (snd (processSerialCommand fl junk m line w))) = 1"
    if h: "\<not> strcasecmp_eq (trim line) ''HELP'' \<and> \<not> runs_pump_init junk m line"
  proof (cases "routed SerialSketch junk m line")
    case True
    with h have "console_lines w (snd (snd (snd (device_reply SerialSketch fl junk m line w)))) = []"
      by (intro quiet_lines not_pump_init_quiet) simp_all
    with True show ?thesis by (auto simp add: serial_response_lines routed_def is_global_def)
  next
    case False
    with h show ?thesis by (auto simp add: serial_response_lines routed_def is_global_def)
  qed
qed

theorem response_lines_witness:
  "(routed EthernetSketch no_junk (fst (setup_registry EthernetSketch (world0 []))) ''REL_01:ON''
    \<and> fst (handleCommandString plain_fmt no_junk (fst (setup_registry EthernetSketch (world0 [])))
             ''REL_01:ON'' (world0 [])) = ''OK: Relay REL_01 ON'')
   \<and> ((\<not> is_global ''REL_01'' \<and> malformed (parse EthernetSketch no_junk ''REL_01''))
    \<and> take 7 (fst (handleCommandString plain_fmt no_junk (fst (setup_registry EthernetSketch (world0 [])))
             ''REL_01'' (world0 []))) = ''ERROR: '')
   \<and> (strcasecmp_eq (trim ''help'') ''HELP''
    \<and> console_lines (world0 []) (snd (processSerialCommand plain_fmt no_junk
             (fst (setup_registry SerialSketch (world0 []))) ''help'' (world0 []))) = help_lines)
   \<and> ((\<not> strcasecmp_eq (trim ''VICI_01:POSITION'') ''HELP''
        \<and> \<not> runs_pump_init no_junk (fst (setup_registry SerialSketch (world0 []))) ''VICI_01:POSITION'')
    \<and> routed SerialSketch no_junk (fst (setup_registry SerialSketch (world0 []))) ''VICI_01:POSITION''
    \<and> console_lines (world0 [''B'' @ [CR]]) (snd (processSerialCommand plain_fmt no_junk
             (fst (setup_registry SerialSketch (world0 []))) ''VICI_01:POSITION'' (world0 [''B'' @ [CR]])))
         = [''DATA: VICI VICI_01 position: B''])
   \<and> ((\<not> is_global ''REL_01'' \<and> malformed (parse SerialSketch no_junk ''REL_01''))
    \<and> console_lines (world0 []) (snd (processSerialCommand plain_fmt no_junk
             (fst (setup_registry SerialSketch (world0 []))) ''REL_01'' (world0 []))) = [invalid_format])"
proof -
  let ?me = "fst (setup_registry EthernetSketch (world0 []))"
  let ?ms = "fst (setup_registry SerialSketch (world0 []))"
  let ?w = "world0 [''B'' @ [CR]]"
  let ?L = "console_lines ?w (snd (processSerialCommand plain_fmt no_junk ?ms ''VICI_01:POSITION'' ?w))"
  have h1: "routed EthernetSketch no_junk ?me ''REL_01:ON''" by code_simp
  have h2: "\<not> is_global ''REL_01'' \<and> malformed (parse EthernetSketch no_junk ''REL_01'')" by code_simp
  have h3: "strcasecmp_eq (trim ''help'') ''HELP''" by code_simp
  have h4: "\<not> strcasecmp_eq (trim ''VICI_01:POSITION'') ''HELP''
            \<and> \<not> runs_pump_init no_junk ?ms ''VICI_01:POSITION''" by code_simp
  have h5: "routed SerialSketch no_junk ?ms ''VICI_01:POSITION''" by code_simp
  have h6: "\<not> is_global ''REL_01'' \<and> malformed (parse SerialSketch no_junk ''REL_01'')" by code_simp
  have c1: "fst (handleCommandString plain_fmt no_junk ?me ''REL_01:ON'' (world0 []))
              = result_prefix (fst (device_reply EthernetSketch plain_fmt no_junk ?me ''REL_01:ON'' (world0 [])))
                @ fst (snd (device_reply EthernetSketch plain_fmt no_junk ?me ''REL_01:ON'' (world0 [])))"
    using response_lines [of plain_fmt no_junk ?me "''REL_01:ON''" "world0 []"] h1 by blast
  have c2: "take 7 (fst (handleCommandString plain_fmt no_junk ?me ''REL_01'' (world0 []))) = ''ERROR: ''"
    using response_lines [of plain_fmt no_junk ?me "''REL_01''" "world0 []"] h2 by blast
  have c3: "console_lines (world0 []) (snd (processSerialCommand plain_fmt no_junk ?ms ''help'' (world0 [])))
              = help_lines"
    using response_lines [of plain_fmt no_junk ?ms "''help''" "world0 []"] h3 by blast
  have c4: "length ?L = 1
            \<and> last ?L = result_prefix (fst (device_reply SerialSketch plain_fmt no_junk ?ms ''VICI_01:POSITION'' ?w))
                @ fst (snd (device_reply SerialSketch plain_fmt no_junk ?ms ''VICI_01:POSITION'' ?w))"
    using response_lines [of plain_fmt no_junk ?ms "''VICI_01:POSITION''" ?w] h4 h5 by blast
  have c6: "console_lines (world0 []) (snd (processSerialCommand plain_fmt no_junk ?ms ''REL_01'' (world0 [])))
              = [invalid_format]"
    using response_lines [of plain_fmt no_junk ?ms "''REL_01''" "world0 []"] h6 by blast
  have e1: "result_prefix (fst (device_reply EthernetSketch plain_fmt no_junk ?me ''REL_01:ON'' (world0 [])))
                @ fst (snd (device_reply EthernetSketch plain_fmt no_junk ?me ''REL_01:ON'' (world0 [])))
            = ''OK: Relay REL_01 ON''"
    by code_simp
  have e4: "result_prefix (fst (device_reply SerialSketch plain_fmt no_junk ?ms ''VICI_01:POSITION'' ?w))
                @ fst (snd (device_reply SerialSketch plain_fmt no_junk ?ms ''VICI_01:POSITION'' ?w))
            = ''DATA: VICI VICI_01 position: B''"
    by code_simp
  from c4 have "?L = [last ?L]" by (cases ?L) auto
  with c4 e4 have c4': "?L = [''DATA: VICI VICI_01 position: B'']" by simp
  from c1 e1 have c1': "fst (handleCommandString plain_fmt no_junk ?me ''REL_01:ON'' (world0 []))
                          = ''OK: Relay REL_01 ON''" by simp
  from h1 h2 h3 h4 h5 h6 c1' c2 c3 c4' c6 show ?thesis by blast
qed

theorem response_lines_counterexample:
  "console_lines (world0 []) (snd (processSerialCommand plain_fmt no_junk
       (fst (setup_registry SerialSketch (world0 []))) ''HELP'' (world0 [])))
     = [''OK: Available commands:'',
        ''  STATUS - Get all device statuses'',
        ''  DEVICE_ID:COMMAND[:PARAM1[:PARAM2]]'',
        ''  Examples:'',
        ''    REL_01:ON'',
        ''    VICI_01:GOTO:A'',
        ''    MFLEX_01:SPEED:100.0:+'']
   \<and> console_lines (world0 []) (snd (processSerialCommand plain_fmt no_junk
       (fst (setup_registry SerialSketch (world0 []))) ''MFLEX_01:INIT'' (world0 [])))
     = [''Initializing Masterflex pump MFLEX_01...'',
        ''Init response type: 0No response to ENQ'',
        ''ERROR: Failed to initialize Masterflex MFLEX_01 - check serial output for details'']"
  by code_simp

subsection \<open>Aggregate status\<close>

lemma extend_join_eq:
  "list_all (\<lambda>s. s \<noteq> []) ss \<Longrightarrow>
   extend_join J ss = (if J = [] then join_comma ss else if ss = [] then J else J @ '', '' @ join_comma ss)"
proof (induction ss arbitrary: J)
  case Nil
  then show ?case by simp
next
  case (Cons s ss)
  then show ?case by (cases ss) auto
qed

lemma size_sub_eq: "b \<le> a \<Longrightarrow> a < 2 ^ 32 \<Longrightarrow> size_sub a b = a - b"
proof -
  assume le: "b \<le> a" and lt: "a < 2 ^ 32"
  have "(of_nat a :: 32 word) - of_nat b = of_nat (a - b)" using le by simp
  moreover have "unat (of_nat (a - b) :: 32 word) = a - b"
    using lt by (simp add: unsigned_of_nat take_bit_nat_eq_self)
  ultimately show ?thesis by (simp add: size_sub_def)
qed

lemma take_append_clip: "take n J @ take (n - length (take n J)) s = take n (J @ s)"
  by (cases "length J \<le> n") (simp_all add: min_def)

lemma strncat_clip:
  assumes "0 < B" "B < 2 ^ 32"
  shows "strncat_s (take (B - 1) J) s (size_sub (size_sub B (length (take (B - 1) J))) 1)
           = take (B - 1) (J @ s)"
proof -
  let ?sb = "take (B - 1) J"
  have len: "length ?sb \<le> B - 1" by simp
  with assms have s1: "size_sub B (length ?sb) = B - length ?sb"
    by (intro size_sub_eq) auto
  from len assms have s2: "size_sub (B - length ?sb) 1 = B - length ?sb - 1"
    by (intro size_sub_eq) auto
  have "B - length ?sb - 1 = (B - 1) - length ?sb" by simp
  then show ?thesis
    unfolding s1 s2 strncat_s_def using take_append_clip [of "B - 1" J s] by simp
qed

lemma strlcat_clip: "strlcat_s (take (mx - 1) J) s mx = take (mx - 1) (J @ s)"
proof (cases "mx = 0")
  case True
  then show ?thesis by (simp add: strlcat_s_def)
next
  case False
  then have "\<not> mx \<le> length (take (mx - 1) J)" by (auto simp: min_def)
  moreover have "mx - length (take (mx - 1) J) - 1 = (mx - 1) - length (take (mx - 1) J)" by simp
  ultimately show ?thesis
    unfolding strlcat_s_def using take_append_clip [of "mx - 1" J s] by simp
qed

lemma getStatus_ok: "fst (Device_getStatus sk d sz w)"
  by (cases d; cases sk)
     (simp_all add: RelayDevice_getStatus_def ViciDevice_getStatus_def MasterflexDevice_getStatus_def
        MasterflexDevice_getStatus_eth_def Let_def case_prod_beta)

lemma snprintf_nonempty: "2 \<le> n \<Longrightarrow> s \<noteq> [] \<Longrightarrow> snprintf_s n s \<noteq> []"
  by (cases s) (auto simp: snprintf_s_def)

lemma getStatus_nonempty: "2 \<le> sz \<Longrightarrow> fst (snd (Device_getStatus sk d sz w)) \<noteq> []"
  by (cases d; cases sk)
     (simp_all add: RelayDevice_getStatus_def ViciDevice_getStatus_def MasterflexDevice_getStatus_def
        MasterflexDevice_getStatus_eth_def Let_def case_prod_beta snprintf_nonempty)

lemma enabled_statuses_nonempty:
  "2 \<le> sz \<Longrightarrow> list_all (\<lambda>s. s \<noteq> []) (fst (enabled_statuses sk sz ds w))"
proof (induction ds arbitrary: w)
  case Nil
  then show ?case by simp
next
  case (Cons s ds)
  then show ?case
    by (cases s) (simp_all add: case_prod_beta Let_def getStatus_nonempty)
qed

lemma getAllStatus_loop_join:
  assumes B: "2 \<le> B" "B < 2 ^ 32"
  shows "getAllStatus_loop B ds (take (B - 1) J) w =
           (take (B - 1) (extend_join J (fst (enabled_statuses SerialSketch 64 ds w))),
            snd (enabled_statuses SerialSketch 64 ds w))"
proof (induction ds arbitrary: J w)
  case Nil
  show ?case by simp
next
  case (Cons s ds)
  show ?case
  proof (cases s)
    case None
    then show ?thesis using Cons.IH by simp
  next
    case (Some d)
    show ?thesis
    proof (cases "Device_enabled d")
      case False
      with Some show ?thesis using Cons.IH by simp
    next
      case True
      obtain ok st w' where g: "Device_getStatus SerialSketch d 64 w = (ok, st, w')"
        by (cases "Device_getStatus SerialSketch d 64 w") auto
      with getStatus_ok [of SerialSketch d 64 w] have ok: "ok" by simp
      from B have pos: "0 < B" by simp
      have ne: "(0 < length (take (B - 1) J)) = (J \<noteq> [])" using B(1) by (rule take_nonempty)
      define J' where "J' = (if J = [] then st else J @ '', '' @ st)"
      have step: "getAllStatus_loop B (Some d # ds) (take (B - 1) J) w
                    = getAllStatus_loop B ds (take (B - 1) J') w'"
      proof (cases "J = []")
        case True
        then show ?thesis
          using \<open>Device_enabled d\<close> g ok strncat_clip [OF pos B(2), of "[]" st]
          by (simp add: J'_def)
      next
        case False
        then show ?thesis
          using \<open>Device_enabled d\<close> g ok ne strncat_clip [OF pos B(2), of J "'', ''"]
            strncat_clip [OF pos B(2), of "J @ '', ''" st]
          by (simp add: J'_def)
      qed
      have spec: "enabled_statuses SerialSketch 64 (Some d # ds) w
                    = (st # fst (enabled_statuses SerialSketch 64 ds w'),
                       snd (enabled_statuses SerialSketch 64 ds w'))"
        using \<open>Device_enabled d\<close> g by (simp add: case_prod_beta)
      show ?thesis
        unfolding Some step spec using Cons.IH [of J' w'] by (simp add: J'_def)
    qed
  qed
qed

lemma getAllStatus_loop_one:
  "getAllStatus_loop (Suc 0) ds [] w = ([], snd (enabled_statuses SerialSketch 64 ds w))"
proof (induction ds arbitrary: w)
  case Nil
  show ?case by simp
next
  case (Cons s ds)
  show ?case
  proof (cases s)
    case None
    then show ?thesis using Cons.IH by simp
  next
    case (Some d)
    have z: "size_sub (size_sub (Suc 0) 0) (Suc 0) = 0" by (simp add: size_sub_def)
    from Some show ?thesis
      using Cons.IH getStatus_ok [of SerialSketch d 64 w]
      by (simp add: case_prod_beta Let_def strncat_s_def z)
  qed
qed

lemma allStatus_loop_join:
  assumes "list_all slot_enabled ds" "(i = 0) = (J = [])"
  shows "allStatus_loop mx i ds (take (mx - 1) J) w =
           (take (mx - 1) (extend_join J (fst (enabled_statuses EthernetSketch 96 ds w))),
            snd (enabled_statuses EthernetSketch 96 ds w))"
  using assms
proof (induction ds arbitrary: i J w)
  case Nil
  show ?case by simp
next
  case (Cons s ds)
  from Cons.prems(1) have hd: "slot_enabled s" and rest: "list_all slot_enabled ds"
    by simp_all
  from hd obtain d where s: "s = Some d" and en: "Device_enabled d"
    by (cases s) (auto simp: slot_enabled_def)
  obtain ok st w' where g: "Device_getStatus EthernetSketch d 96 w = (ok, st, w')"
    by (cases "Device_getStatus EthernetSketch d 96 w") auto
  have st: "st \<noteq> []" using getStatus_nonempty [of 96 EthernetSketch d w] g by simp
  define J' where "J' = (if J = [] then st else J @ '', '' @ st)"
  have J': "(Suc i = 0) = (J' = [])" using st by (simp add: J'_def)
  have step: "allStatus_loop mx i (Some d # ds) (take (mx - 1) J) w
                = allStatus_loop mx (Suc i) ds (take (mx - 1) J') w'"
  proof (cases "J = []")
    case True
    with Cons.prems(2) have "i = 0" by simp
    with True show ?thesis
      using g strlcat_clip [of mx "[]" st] by (simp add: J'_def)
  next
    case False
    with Cons.prems(2) have "0 < i" by simp
    with False show ?thesis
      using g strlcat_clip [of mx J "'', ''"] strlcat_clip [of mx "J @ '', ''" st]
      by (simp add: J'_def)
  qed
  have spec: "enabled_statuses EthernetSketch 96 (Some d # ds) w
                = (st # fst (enabled_statuses EthernetSketch 96 ds w'),
                   snd (enabled_statuses EthernetSketch 96 ds w'))"
    using en g by (simp add: case_prod_beta)
  show ?case
    unfolding s step spec using Cons.IH [OF rest J', of w'] by (simp add: J'_def)
qed

text \<open>
  Every manager the sketches can reach satisfies \<open>registry_inv\<close>: the empty manager does,
  and registration and command dispatch keep it.
\<close>

lemma registry_inv_new: "registry_inv DeviceManager_new"
  by (simp add: registry_inv_def DeviceManager_new_def registered_def MAX_DEVICES_def)

lemma initialize_enabled: "Device_enabled (fst (snd (Device_initialize sk d w)))"
  by (cases d; cases sk)
     (simp_all add: RelayDevice_initialize_def ViciDevice_initialize_def MasterflexDevice_initialize_def
        MasterflexDevice_initialize_eth_def)

lemma registry_inv_addDevice:
  assumes "registry_inv m"
  shows "registry_inv (fst (snd (addDevice sk m d w)))"
proof (cases "deviceCount m \<ge> MAX_DEVICES")
  case True
  with assms show ?thesis by (simp add: addDevice_def)
next
  case False
  with assms have room: "length (devices m) = MAX_DEVICES" "deviceCount m < MAX_DEVICES"
    by (simp_all add: registry_inv_def)
  from False have "fst (snd (addDevice sk m d w))
          = m\<lparr>devices := (devices m)[deviceCount m := Some (fst (snd (Device_initialize sk d w)))],
              deviceCount := Suc (deviceCount m)\<rparr>"
    by (simp add: addDevice_def case_prod_beta)
  moreover have "registry_inv (m\<lparr>devices := (devices m)[deviceCount m := Some (fst (snd (Device_initialize sk d w)))],
              deviceCount := Suc (deviceCount m)\<rparr>)"
    using assms room registered_append [OF room, of "Some (fst (snd (Device_initialize sk d w)))"]
    by (simp add: registry_inv_def slot_enabled_def initialize_enabled)
  ultimately show ?thesis by simp
qed

lemma processCommand_enabled:
  "Device_enabled (fst (snd (snd (Device_processCommand sk fl d c p1 p2 n w)))) = Device_enabled d"
proof (cases d)
  case (Relay r)
  then show ?thesis by (simp add: case_prod_beta RelayDevice_processCommand_def Let_def)
next
  case (Vici v)
  then show ?thesis by (simp add: case_prod_beta ViciDevice_processCommand_def Let_def)
next
  case (Masterflex p)
  have i: "enabled (fst (snd (initializePump p w))) = enabled p"
    by (simp add: initializePump_def case_prod_beta Let_def)
  from Masterflex show ?thesis
    by (cases sk)
       (simp_all add: case_prod_beta MasterflexDevice_processCommand_def
          MasterflexDevice_processCommand_eth_def Let_def i)
qed

lemma registry_inv_update:
  assumes "registry_inv m" "findDevice m deviceId = Some i" "Device_enabled d'"
  shows "registry_inv (m\<lparr>devices := (devices m)[i := Some d']\<rparr>)"
proof -
  have "registered (m\<lparr>devices := (devices m)[i := Some d']\<rparr>) = (registered m)[i := Some d']"
    by (simp add: registered_def take_update_swap)
  moreover have "list_all slot_enabled ((registered m)[i := Some d'])"
    using assms(1,3) by (auto simp: registry_inv_def slot_enabled_def list_all_iff dest!: set_update_subset_insert [THEN subsetD])
  ultimately show ?thesis using assms(1) by (simp add: registry_inv_def)
qed

lemma found_enabled:
  assumes "registry_inv m" "findDevice m deviceId = Some i"
  shows "\<exists>d. devices m ! i = Some d \<and> Device_enabled d"
proof -
  from assms(2) findDevice_loop_Some [of "registered m" deviceId 0 i]
  obtain d where i: "i < length (registered m)" and d: "registered m ! i = Some d"
    by (auto simp: findDevice_def)
  from assms(1) have "list_all slot_enabled (registered m)" by (simp add: registry_inv_def)
  with i have "slot_enabled (registered m ! i)" by (simp add: list_all_length)
  with d have en: "Device_enabled d" by (simp add: slot_enabled_def)
  from i d have "devices m ! i = Some d" by (simp add: registered_def)
  with en show ?thesis by blast
qed

lemma registry_inv_dispatch:
  assumes "registry_inv m"
  shows "registry_inv (fst (processSerialCommand fl junk m line w))"
    and "registry_inv (fst (snd (handleCommandString fl junk m line w)))"
proof -
  show "registry_inv (fst (processSerialCommand fl junk m line w))"
  proof (cases "routed SerialSketch junk m line")
    case False
    with assms show ?thesis
      by (auto simp add: processSerialCommand_def routed_def is_global_def malformed_def parse_def
            Let_def case_prod_beta)
  next
    case True
    then obtain i where i: "findDevice m (fst (parseCommand junk (trim line))) = Some i"
      by (auto simp: routed_def parse_def)
    with assms obtain d where d: "devices m ! i = Some d" and "Device_enabled d"
      using found_enabled by blast
    then have "Device_enabled (fst (snd (snd (Device_processCommand SerialSketch fl d
                 (fst (snd (parseCommand junk (trim line))))
                 (Some (fst (snd (snd (parseCommand junk (trim line))))))
                 (Some (snd (snd (snd (parseCommand junk (trim line)))))) 256 w))))"
      by (simp add: processCommand_enabled)
    from registry_inv_update [OF assms i this] True i d show ?thesis
      by (simp add: processSerialCommand_def routed_def is_global_def malformed_def parse_def
            Let_def case_prod_beta)
  qed
  show "registry_inv (fst (snd (handleCommandString fl junk m line w)))"
  proof (cases "routed EthernetSketch junk m line")
    case False
    with assms show ?thesis
      by (auto simp add: handleCommandString_def routed_def is_global_def malformed_def parse_def
            Let_def case_prod_beta)
  next
    case True
    then obtain i where i: "findDevice m (fst (parseCommand_eth junk (trim line))) = Some i"
      by (auto simp: routed_def parse_def)
    with assms obtain d where d: "devices m ! i = Some d" and "Device_enabled d"
      using found_enabled by blast
    then have "Device_enabled (fst (snd (snd (Device_processCommand EthernetSketch fl d
                 (fst (snd (parseCommand_eth junk (trim line))))
                 (Some (fst (snd (snd (parseCommand_eth junk (trim line))))))
                 (Some (snd (snd (snd (parseCommand_eth junk (trim line)))))) 256 w))))"
      by (simp add: processCommand_enabled)
    from registry_inv_update [OF assms i this] True i d show ?thesis
      by (simp add: handleCommandString_def routed_def is_global_def malformed_def parse_def
            Let_def case_prod_beta)
  qed
qed

text \<open>
  C5. The aggregate status is the status strings of the devices whose \<open>enabled\<close> flag is
  set, in registration order, joined by \<open>", "\<close> and clipped to the buffer: the result with
  its terminator always fits the destination of the given size. The serial sketch's
  \<open>getAllStatus\<close> tests \<open>enabled\<close> itself (the destination is an array, so its size is at
  least 1, and a \<open>size_t\<close>); the Ethernet sketch's \<open>allStatus\<close> reports every registered
  device, which in every reachable manager (\<open>registry_inv\<close>) are exactly the enabled ones.
\<close>

theorem aggregate_status:
  "(0 < bufferSize \<and> bufferSize < 2 ^ 32 \<longrightarrow>
      getAllStatus m bufferSize w =
        (take (bufferSize - 1) (join_comma (fst (enabled_statuses SerialSketch 64 (registered m) w))),
         snd (enabled_statuses SerialSketch 64 (registered m) w))
      \<and> length (fst (getAllStatus m bufferSize w)) < bufferSize)
   \<and> (registry_inv m \<longrightarrow>
      allStatus m mx w =
        (take (mx - 1) (join_comma (fst (enabled_statuses EthernetSketch 96 (registered m) w))),
         snd (enabled_statuses EthernetSketch 96 (registered m) w))
      \<and> length (fst (allStatus m mx w)) \<le> mx - 1)"
proof (intro conjI impI)
  assume B: "0 < bufferSize \<and> bufferSize < 2 ^ 32"
  let ?ES = "enabled_statuses SerialSketch 64 (registered m) w"
  have ne: "list_all (\<lambda>s. s \<noteq> []) (fst ?ES)" by (rule enabled_statuses_nonempty) simp
  show eq: "getAllStatus m bufferSize w = (take (bufferSize - 1) (join_comma (fst ?ES)), snd ?ES)"
  proof (cases "bufferSize = 1")
    case True
    then show ?thesis by (simp add: getAllStatus_def getAllStatus_loop_one)
  next
    case False
    with B have "2 \<le> bufferSize" by simp
    from getAllStatus_loop_join [OF this, of "registered m" "[]" w] B
    show ?thesis by (simp add: getAllStatus_def extend_join_eq [OF ne])
  qed
  show "length (fst (getAllStatus m bufferSize w)) < bufferSize"
    unfolding eq using B by (auto simp: min_def)
next
  assume inv: "registry_inv m"
  let ?ES = "enabled_statuses EthernetSketch 96 (registered m) w"
  have ne: "list_all (\<lambda>s. s \<noteq> []) (fst ?ES)" by (rule enabled_statuses_nonempty) simp
  from inv have en: "list_all slot_enabled (registered m)" by (simp add: registry_inv_def)
  show eq: "allStatus m mx w = (take (mx - 1) (join_comma (fst ?ES)), snd ?ES)"
    using allStatus_loop_join [OF en, of 0 "[]" mx w]
    by (simp add: allStatus_def extend_join_eq [OF ne])
  show "length (fst (allStatus m mx w)) \<le> mx - 1"
    unfolding eq by simp
qed

theorem aggregate_status_witness:
  "((0::nat) < 10 \<and> (10::nat) < 2 ^ 32)
   \<and> fst (getAllStatus (fst (setup_registry SerialSketch (world0 []))) 10 (world0 [''A'' @ [CR]]))
       = ''REL_01:OF''
   \<and> ((0::nat) < 512 \<and> (512::nat) < 2 ^ 32)
   \<and> fst (getAllStatus (fst (setup_registry SerialSketch (world0 []))) 512 (world0 [''A'' @ [CR]]))
       = ''REL_01:OFF, REL_02:OFF, REL_03:OFF, REL_04:OFF, VICI_01:POS_A, MFLEX_01:NOT_INIT''
   \<and> registry_inv (fst (setup_registry EthernetSketch (world0 [])))
   \<and> fst (allStatus (fst (setup_registry EthernetSketch (world0 []))) 512 (world0 [''A'' @ [CR]]))
       = ''REL_01:OFF, REL_02:OFF, REL_03:OFF, REL_04:OFF, VICI_01:POS_A, MFLEX_01:NOT_INIT''"
proof -
  let ?ms = "fst (setup_registry SerialSketch (world0 []))"
  let ?me = "fst (setup_registry EthernetSketch (world0 []))"
  let ?w = "world0 [''A'' @ [CR]]"
  have h1: "(0::nat) < 10 \<and> (10::nat) < 2 ^ 32" by simp
  have h2: "(0::nat) < 512 \<and> (512::nat) < 2 ^ 32" by simp
  have h3: "registry_inv ?me" by code_simp
  have c1: "fst (getAllStatus ?ms 10 ?w)
              = take (10 - 1) (join_comma (fst (enabled_statuses SerialSketch 64 (registered ?ms) ?w)))"
    using aggregate_status [of 10 ?ms ?w] h1 by simp
  have c2: "fst (getAllStatus ?ms 512 ?w)
              = take (512 - 1) (join_comma (fst (enabled_statuses SerialSketch 64 (registered ?ms) ?w)))"
    using aggregate_status [of 512 ?ms ?w] h2 by simp
  have c3: "fst (allStatus ?me 512 ?w)
              = take (512 - 1) (join_comma (fst (enabled_statuses EthernetSketch 96 (registered ?me) ?w)))"
    using aggregate_status [of _ ?me ?w 512] h3 by simp
  have e1: "take (10 - 1) (join_comma (fst (enabled_statuses SerialSketch 64 (registered ?ms) ?w)))
              = ''REL_01:OF''"
    by code_simp
  have e2: "take (512 - 1) (join_comma (fst (enabled_statuses SerialSketch 64 (registered ?ms) ?w)))
              = ''REL_01:OFF, REL_02:OFF, REL_03:OFF, REL_04:OFF, VICI_01:POS_A, MFLEX_01:NOT_INIT''"
    by code_simp
  have e3: "take (512 - 1) (join_comma (fst (enabled_statuses EthernetSketch 96 (registered ?me) ?w)))
              = ''REL_01:OFF, REL_02:OFF, REL_03:OFF, REL_04:OFF, VICI_01:POS_A, MFLEX_01:NOT_INIT''"
    by code_simp
  from h1 h2 h3 c1 c2 c3 e1 e2 e3 show ?thesis by simp
qed

subsection \<open>Format errors\<close>

lemma fields_nonempty: "fields s \<noteq> []"
  by (cases s) simp_all













end
